theory Spec2Isabelle
  imports Main "HOL-Library.Sublist"
begin

section \<open>Data model\<close>

text \<open>
  The Docker goals of the pack run external processes, write to a progress log, query the
  graph and post a webhook. Every such effect is an \<open>event\<close>; an executor is a function
  from the environment's answers to the list of events it caused, in order, and its outcome.
  A rejected promise (a thrown JavaScript error) is the left injection of the outcome.
\<close>

datatype error = Error string | TypeError string

record ExecuteGoalResult =
  code :: int
  message :: "string option"

text \<open>\<open>Success\<close> of the automation client: the result with code 0.\<close>

definition Success :: ExecuteGoalResult where
  "Success = \<lparr>code = 0, message = None\<rparr>"

record GitProject =
  name :: string
  baseDir :: string

record SdmGoalEvent =
  repo_owner :: string
  repo_name :: string
  sha :: string
  branch :: string
  goalSetId :: string

record HandlerContext =
  workspaceId :: string

record ImageName =
  img_registry :: "string option"
  img_name :: string
  img_version :: string

text \<open>
  \<open>DockerOptions\<close> of \<open>executeDockerBuild\<close>: every field is optional in the source
  (\<open>push?: boolean\<close>, \<open>registry?: string\<close>, ...), so every field is an option here.
\<close>

record DockerOptions =
  push :: "bool option"
  registry :: "string option"
  user :: "string option"
  password :: "string option"
  dockerfileFinder :: "(GitProject \<Rightarrow> error + string) option"

type_synonym DockerImageNameCreator =
  "GitProject \<Rightarrow> SdmGoalEvent \<Rightarrow> DockerOptions \<Rightarrow> HandlerContext \<Rightarrow> error + ImageName"

text \<open>
  The effects. \<open>Spawn cmd args env\<close> is one external process with the environment
  entries the caller sets on top of the ambient ones (a value \<open>None\<close> is JavaScript's
  \<open>undefined\<close>); \<open>PostLink\<close> is the image-link webhook with the image reference it
  carries (\<open>None\<close> for \<open>undefined\<close>). \<open>LogWrite\<close> is a line the executor itself
  writes to the progress log, \<open>GraphQuery\<close> a query by name with the id it asks for.
  The working directory of a process is not recorded.
\<close>

datatype event =
    is_Spawn: Spawn string "string list" "(string \<times> string option) list"
  | is_LogWrite: LogWrite string
  | is_GraphQuery: GraphQuery string "string option"
  | is_PostLink: PostLink string string string "string option" string

record GoalInvocation =
  gi_sdmGoal :: SdmGoalEvent
  gi_context :: HandlerContext

text \<open>
  The options of \<open>doDockerRun\<close> (\<open>DockerOptionsPlus\<close>), by the fields the executor
  reads. The source's field \<open>registry\<close> holds the registry list here and is called
  \<open>registry_entries\<close>, since \<open>registry\<close> is the string field of \<open>DockerOptions\<close> above;
  \<open>None\<close> is \<open>undefined\<close>. The argument lists and the builder path are spread into
  the arguments of \<open>docker run\<close> and are taken as set, as the defaults of
  \<open>DockerExec.with\<close> set them.
\<close>

record DockerRegistry =
  reg_registry :: string
  reg_user :: "string option"
  reg_password :: "string option"
  reg_label :: string
  reg_display :: bool

record DockerOptionsPlus =
  builder :: "string option"
  builderArgs :: "string list"
  builderPath :: string
  programArgs :: "string list"
  config :: "string option"
  registry_entries :: "DockerRegistry list option"

record ProjectAwareGoalInvocation =
  goalEvent :: SdmGoalEvent
  pgi_context :: HandlerContext
  pgi_project :: GitProject

text \<open>What the two graph queries of \<open>readRegistries\<close> return.\<close>

record DockerRegistryProvider =
  url :: string
  provider_name :: string
  credential_id :: string

record Password =
  owner_login :: string
  secret :: string

text \<open>
  The environment of the executors: the functions they import from the automation client,
  the SDM, lodash and Node, whose code is outside this repository. Each answer of a
  process, of the graph or of the webhook may depend on everything that happened before
  (the events so far).
  \<open>projectConfigurationValue\<close> gives the truthiness of what the call
  \<open>projectConfigurationValue(path, project, defaultValue)\<close> hands back to the caller;
  \<open>spawnLog_reply\<close> answers both \<open>spawnLog\<close> and the invocation's \<open>spawn\<close>;
  \<open>graphClient_providers\<close> is the \<open>DockerRegistryProvider\<close> field of the first
  query's answer (\<open>None\<close> when the answer or the field is null); \<open>url_host\<close> is
  \<open>new URL(u).host\<close>, which throws on a string that is no URL; \<open>mergeOptions\<close>
  overlays the \<open>docker.build\<close> configuration on a copy of the options.
\<close>

record world =
  spawnAndWatch_reply :: "event list \<Rightarrow> string \<Rightarrow> string list \<Rightarrow> error + ExecuteGoalResult"
  isInLocalMode :: bool
  projectConfigurationValue :: "string \<Rightarrow> GitProject \<Rightarrow> bool \<Rightarrow> bool"
  postLinkImageWebhook_reply ::
    "event list \<Rightarrow> string \<Rightarrow> string \<Rightarrow> string \<Rightarrow> string option \<Rightarrow> string \<Rightarrow> error + bool"
  spawnLog_reply ::
    "event list \<Rightarrow> string \<Rightarrow> string list \<Rightarrow> (string \<times> string option) list
       \<Rightarrow> error + ExecuteGoalResult"
  graphClient_providers :: "event list \<Rightarrow> error + DockerRegistryProvider list option"
  graphClient_password :: "event list \<Rightarrow> string \<Rightarrow> error + Password list"
  url_host :: "string \<Rightarrow> error + string"
  homedir :: string
  path_join :: "string \<Rightarrow> string \<Rightarrow> string"
  mergeOptions :: "DockerOptionsPlus \<Rightarrow> DockerOptionsPlus"

section \<open>JavaScript primitives used by the source\<close>

text \<open>Truthiness of an optional string: \<open>undefined\<close> and the empty string are falsy.\<close>

definition truthy :: "string option \<Rightarrow> bool" where
  "truthy s = (case s of None \<Rightarrow> False | Some v \<Rightarrow> v \<noteq> [])"

definition alnum :: "char \<Rightarrow> bool" where
  "alnum c = List.member ''ABCDEFGHIJKLMNOPQRSTUVWXYZabcdefghijklmnopqrstuvwxyz0123456789'' c"

text \<open>
  \<open>/[^A-Za-z0-9]/.test(x)\<close>: some character of the string is outside the class.
  \<open>RegExp.prototype.test\<close> converts its argument to a string, so \<open>undefined\<close> is
  tested as the nine letters \<open>undefined\<close>.
\<close>

definition test_non_alnum :: "string option \<Rightarrow> bool" where
  "test_non_alnum x =
     list_ex (\<lambda>c. \<not> alnum c) (case x of None \<Rightarrow> ''undefined'' | Some s \<Rightarrow> s)"

text \<open>\<open>x || true\<close> on an optional boolean.\<close>

definition or_true :: "bool option \<Rightarrow> bool" where
  "or_true x = (case x of None \<Rightarrow> True | Some b \<Rightarrow> (if b then b else True))"

definition apostrophe :: string where
  "apostrophe = [CHR 0x27]"

section \<open>executeDockerBuild\<close>

text \<open>\<open>spawnAndWatch(\<open>{command, args}\<close>, opts, progressLog, spOpts)\<close>.\<close>

definition spawnAndWatch ::
  "world \<Rightarrow> event list \<Rightarrow> string \<Rightarrow> string list \<Rightarrow> event list \<times> (error + ExecuteGoalResult)" where
  "spawnAndWatch w tr command args =
     (tr @ [Spawn command args []], spawnAndWatch_reply w tr command args)"

definition postLinkImageWebhook ::
  "world \<Rightarrow> event list \<Rightarrow> string \<Rightarrow> string \<Rightarrow> string \<Rightarrow> string option \<Rightarrow> string
     \<Rightarrow> event list \<times> (error + bool)" where
  "postLinkImageWebhook w tr owner repo commit img ws =
     (tr @ [PostLink owner repo commit img ws],
      postLinkImageWebhook_reply w tr owner repo commit img ws)"

definition login_notice :: string where
  "login_notice = ''Running '' @ apostrophe @ ''docker login'' @ apostrophe"

definition login_skip_notice :: string where
  "login_skip_notice = ''Skipping '' @ apostrophe @ ''docker login'' @ apostrophe
     @ '' because user and password are not configured''"

definition dockerLogin ::
  "world \<Rightarrow> event list \<Rightarrow> DockerOptions \<Rightarrow> event list \<times> (error + ExecuteGoalResult)" where
  "dockerLogin w tr options =
     (case (user options, password options) of
        (Some u, Some p) \<Rightarrow>
          if u \<noteq> [] \<and> p \<noteq> [] then
            let tr1 = tr @ [LogWrite login_notice];
                loginArgs = [''login'', ''--username'', u, ''--password'', p];
                loginArgs' = (if test_non_alnum (registry options)
                              then loginArgs @ [case registry options of
                                                  Some r \<Rightarrow> r | None \<Rightarrow> ''undefined'']
                              else loginArgs)
            in spawnAndWatch w tr1 ''docker'' loginArgs'
          else (tr @ [LogWrite login_skip_notice], Inr Success)
      | _ \<Rightarrow> (tr @ [LogWrite login_skip_notice], Inr Success))"

definition push_missing_message :: string where
  "push_missing_message =
     ''Required configuration missing for pushing docker image. Please make sure to set ''
     @ apostrophe @ ''registry'' @ apostrophe @ '', '' @ apostrophe @ ''user'' @ apostrophe
     @ '' and '' @ apostrophe @ ''password'' @ apostrophe @ '' in your configuration.''"

definition push_skip_notice :: string where
  "push_skip_notice = ''Skipping '' @ apostrophe @ ''docker push'' @ apostrophe"

text \<open>
  \<open>dockerPush\<close> assigns \<open>options.push\<close> when it is undefined, so the options it
  leaves behind are part of what it returns. The gate of the stage is the value that
  \<open>projectConfigurationValue("docker.push.enabled", project, options.push || true)\<close>
  hands back, tested as it is (the source does not await it).
\<close>

definition dockerPush ::
  "world \<Rightarrow> event list \<Rightarrow> string \<Rightarrow> GitProject \<Rightarrow> DockerOptions
     \<Rightarrow> DockerOptions \<times> event list \<times> (error + ExecuteGoalResult)" where
  "dockerPush w tr img project options =
     (let options1 = (if push options = None
                      then options\<lparr>push := Some (\<not> isInLocalMode w)\<rparr> else options)
      in if projectConfigurationValue w ''docker.push.enabled'' project (or_true (push options1))
         then
           if \<not> truthy (user options1) \<or> \<not> truthy (password options1)
           then (options1, tr @ [LogWrite push_missing_message],
                 Inr \<lparr>code = 1, message = Some push_missing_message\<rparr>)
           else (case spawnAndWatch w tr ''docker'' [''push'', img] of
                   (tr1, r) \<Rightarrow> (options1, tr1, r))
         else (options1, tr @ [LogWrite push_skip_notice], Inr Success))"

definition image_of :: "ImageName \<Rightarrow> string" where
  "image_of imageName =
     (if truthy (img_registry imageName)
      then (case img_registry imageName of Some r \<Rightarrow> r @ ''/'' | None \<Rightarrow> '''')
      else '''')
     @ img_name imageName @ '':'' @ img_version imageName"

definition image_link_failed :: ExecuteGoalResult where
  "image_link_failed = \<lparr>code = 1, message = Some ''Image link failed''\<rparr>"

text \<open>
  The body that \<open>executeDockerBuild\<close> hands to the project loader, on the cloned
  project \<open>p\<close>. It returns the options as the stages left them, the events in order and
  the goal's result.
\<close>

definition executeDockerBuild ::
  "world \<Rightarrow> DockerImageNameCreator \<Rightarrow> DockerOptions \<Rightarrow> GoalInvocation \<Rightarrow> GitProject
     \<Rightarrow> DockerOptions \<times> event list \<times> (error + ExecuteGoalResult)" where
  "executeDockerBuild w imageNameCreator options goalInvocation p =
     (case imageNameCreator p (gi_sdmGoal goalInvocation) options (gi_context goalInvocation) of
        Inl e \<Rightarrow> (options, [], Inl e)
      | Inr imageName \<Rightarrow>
     (case (case dockerfileFinder options of Some f \<Rightarrow> f p | None \<Rightarrow> Inr ''Dockerfile'') of
        Inl e \<Rightarrow> (options, [], Inl e)
      | Inr dockerfilePath \<Rightarrow>
     (case dockerLogin w [] options of
        (tr1, Inl e) \<Rightarrow> (options, tr1, Inl e)
      | (tr1, Inr result1) \<Rightarrow>
     if code result1 \<noteq> 0 then (options, tr1, Inr result1) else
     (case spawnAndWatch w tr1 ''docker''
             [''build'', ''.'', ''-f'', dockerfilePath, ''-t'', image_of imageName] of
        (tr2, Inl e) \<Rightarrow> (options, tr2, Inl e)
      | (tr2, Inr result2) \<Rightarrow>
     if code result2 \<noteq> 0 then (options, tr2, Inr result2) else
     (case dockerPush w tr2 (image_of imageName) p options of
        (options', tr3, Inl e) \<Rightarrow> (options', tr3, Inl e)
      | (options', tr3, Inr result3) \<Rightarrow>
     if code result3 \<noteq> 0 then (options', tr3, Inr result3) else
     (case postLinkImageWebhook w tr3
             (repo_owner (gi_sdmGoal goalInvocation)) (repo_name (gi_sdmGoal goalInvocation))
             (sha (gi_sdmGoal goalInvocation)) (Some (image_of imageName))
             (workspaceId (gi_context goalInvocation)) of
        (tr4, Inl e) \<Rightarrow> (options', tr4, Inl e)
      | (tr4, Inr linked) \<Rightarrow>
          if linked then (options', tr4, Inr result3)
          else (options', tr4, Inr image_link_failed)))))))"

section \<open>doDockerRun\<close>

text \<open>\<open>spawnLog(cmd, args, opts)\<close> and \<open>gi.spawn(cmd, args, opts)\<close>.\<close>

definition spawnLog ::
  "world \<Rightarrow> event list \<Rightarrow> string \<Rightarrow> string list \<Rightarrow> (string \<times> string option) list
     \<Rightarrow> event list \<times> (error + ExecuteGoalResult)" where
  "spawnLog w tr cmd args env =
     (tr @ [Spawn cmd args env], spawnLog_reply w tr cmd args env)"

definition checkIsBuilderAvailable ::
  "world \<Rightarrow> event list \<Rightarrow> string \<Rightarrow> string list \<Rightarrow> event list \<times> (error + unit)" where
  "checkIsBuilderAvailable w tr cmd args =
     (case spawnLog w tr cmd args [] of
        (tr1, Inl e) \<Rightarrow>
          (tr1, Inl (Error (''Configured Docker image builder '' @ apostrophe @ cmd
                            @ apostrophe @ '' is not available'')))
      | (tr1, Inr r) \<Rightarrow> (tr1, Inr ()))"

text \<open>
  The loop of \<open>readRegistries\<close> over the registry providers. Reading
  \<open>credential.Password[0].owner\<close> of an empty answer throws a \<open>TypeError\<close>.
\<close>

fun readRegistries_loop ::
  "world \<Rightarrow> event list \<Rightarrow> DockerRegistryProvider list \<Rightarrow> DockerRegistry list
     \<Rightarrow> event list \<times> (error + DockerRegistry list)" where
  "readRegistries_loop w tr [] registries = (tr, Inr registries)"
| "readRegistries_loop w tr (dockerRegistry # rest) registries =
     (let tr1 = tr @ [GraphQuery ''Password'' (Some (credential_id dockerRegistry))] in
      case graphClient_password w tr (credential_id dockerRegistry) of
        Inl e \<Rightarrow> (tr1, Inl e)
      | Inr credential \<Rightarrow>
      (case url_host w (url dockerRegistry) of
        Inl e \<Rightarrow> (tr1, Inl e)
      | Inr host \<Rightarrow>
      (case credential of
        [] \<Rightarrow> (tr1, Inl (TypeError ''Cannot read property owner of undefined''))
      | c # _ \<Rightarrow>
          readRegistries_loop w tr1 rest
            (registries @ [\<lparr>reg_registry = host, reg_user = Some (owner_login c),
                            reg_password = Some (secret c), reg_label = provider_name dockerRegistry,
                            reg_display = False\<rparr>]))))"

definition readRegistries ::
  "world \<Rightarrow> event list \<Rightarrow> HandlerContext \<Rightarrow> event list \<times> (error + DockerRegistry list)" where
  "readRegistries w tr ctx =
     (let tr1 = tr @ [GraphQuery ''DockerRegistryProvider'' None] in
      case graphClient_providers w tr of
        Inl e \<Rightarrow> (tr1, Inl e)
      | Inr None \<Rightarrow> (tr1, Inr [])
      | Inr (Some dockerRegistries) \<Rightarrow> readRegistries_loop w tr1 dockerRegistries [])"

text \<open>\<open>toArray(options.registry || [])\<close>.\<close>

definition toArray :: "'a list option \<Rightarrow> 'a list" where
  "toArray x = (case x of None \<Rightarrow> [] | Some xs \<Rightarrow> xs)"

text \<open>The function falls off its end, returning \<open>undefined\<close>, when neither branch applies.\<close>

definition dockerConfigPath :: "world \<Rightarrow> DockerOptionsPlus \<Rightarrow> SdmGoalEvent \<Rightarrow> string option" where
  "dockerConfigPath w options ge =
     (if list_ex (\<lambda>r. truthy (reg_user r) \<and> truthy (reg_password r)) (toArray (registry_entries options))
      then Some (path_join w (homedir w) ''.docker'')
      else if truthy (config options)
      then Some (path_join w (homedir w) (''.docker-'' @ goalSetId ge))
      else None)"

definition runWithDocker ::
  "world \<Rightarrow> event list \<Rightarrow> ProjectAwareGoalInvocation \<Rightarrow> DockerOptionsPlus
     \<Rightarrow> event list \<times> (error + ExecuteGoalResult)" where
  "runWithDocker w tr gi optsToUse =
     (case spawnLog w tr ''docker''
             ([''run''] @ builderArgs optsToUse @ [builderPath optsToUse] @ programArgs optsToUse)
             [(''DOCKER_CONFIG'', dockerConfigPath w optsToUse (goalEvent gi))] of
        (tr1, Inl e) \<Rightarrow> (tr1, Inl e)
      | (tr1, Inr result) \<Rightarrow> if code result \<noteq> 0 then (tr1, Inr result) else (tr1, Inr result))"

text \<open>
  \<open>runWithKaniko\<close> throws on its first line; the \<open>return { code: 99 }\<close> after it is
  never reached.
\<close>

definition runWithKaniko ::
  "event list \<Rightarrow> string list \<Rightarrow> ImageName list \<Rightarrow> string \<Rightarrow> ProjectAwareGoalInvocation
     \<Rightarrow> DockerOptionsPlus \<Rightarrow> event list \<times> (error + ExecuteGoalResult)" where
  "runWithKaniko tr images imageNames dockerfilePath gi optsToUse =
     (tr, Inl (Error ''runWithKaniko unimplemented.''))"

text \<open>\<open>xs[0]\<close>: \<open>undefined\<close> on the empty array.\<close>

definition first_elem :: "'a list \<Rightarrow> 'a option" where
  "first_elem xs = (case xs of [] \<Rightarrow> None | x # _ \<Rightarrow> Some x)"

text \<open>
  The three blocks of \<open>doDockerRun\<close> before the notification, each under a name of its
  own: the \<open>switch\<close> on the builder that probes it, the registry discovery with its
  assignment to \<open>optsToUse.registry\<close>, and the dispatch on the builder that runs it (a
  builder that is neither \<open>docker\<close> nor \<open>kaniko\<close> runs nothing and leaves the initial
  result \<open>{code: 0}\<close>).
\<close>

definition builderProbe :: "world \<Rightarrow> DockerOptionsPlus \<Rightarrow> event list \<times> (error + unit)" where
  "builderProbe w optsToUse =
     (if builder optsToUse = Some ''docker''
      then checkIsBuilderAvailable w [] ''docker'' [''help'']
      else if builder optsToUse = Some ''kaniko''
      then checkIsBuilderAvailable w [] ''/kaniko/executor'' [''--help'']
      else ([], Inr ()))"

definition registryDiscovery ::
  "world \<Rightarrow> event list \<Rightarrow> ProjectAwareGoalInvocation \<Rightarrow> DockerOptionsPlus
     \<Rightarrow> DockerOptionsPlus \<times> event list \<times> (error + unit)" where
  "registryDiscovery w tr gi optsToUse =
     (if \<not> truthy (config optsToUse) \<and> length (toArray (registry_entries optsToUse)) = 0
      then (case readRegistries w tr (pgi_context gi) of
              (tr1, Inl e) \<Rightarrow> (optsToUse, tr1, Inl e)
            | (tr1, Inr found) \<Rightarrow> (optsToUse\<lparr>registry_entries := Some found\<rparr>, tr1, Inr ()))
      else (optsToUse, tr, Inr ()))"

definition builderRun ::
  "world \<Rightarrow> event list \<Rightarrow> ProjectAwareGoalInvocation \<Rightarrow> DockerOptionsPlus \<Rightarrow> ExecuteGoalResult
     \<Rightarrow> string list \<Rightarrow> string \<Rightarrow> event list \<times> (error + ExecuteGoalResult)" where
  "builderRun w tr gi optsToUse result images dockerfilePath =
     (if builder optsToUse = Some ''docker''
      then runWithDocker w tr gi optsToUse
      else if builder optsToUse = Some ''kaniko''
      then runWithKaniko tr images [] dockerfilePath gi optsToUse
      else (tr, Inr result))"

text \<open>
  The body that \<open>doDockerRun\<close> hands to \<open>doWithProject\<close>. It returns the merged options
  as the stages left them, the events in order and the goal's result.
\<close>

definition doDockerRun ::
  "world \<Rightarrow> DockerOptionsPlus \<Rightarrow> ProjectAwareGoalInvocation
     \<Rightarrow> DockerOptionsPlus \<times> event list \<times> (error + ExecuteGoalResult)" where
  "doDockerRun w options gi =
     (let optsToUse = mergeOptions w options in
      case builderProbe w optsToUse of
        (tr1, Inl e) \<Rightarrow> (optsToUse, tr1, Inl e)
      | (tr1, Inr _) \<Rightarrow>
     (case registryDiscovery w tr1 gi optsToUse of
        (optsToUse2, tr2, Inl e) \<Rightarrow> (optsToUse2, tr2, Inl e)
      | (optsToUse2, tr2, Inr _) \<Rightarrow>
     (let result0 = \<lparr>code = 0, message = None\<rparr>;
          images = [];
          dockerfilePath = []
      in if code result0 \<noteq> 0 then (optsToUse2, tr2, Inr result0) else
     (case builderRun w tr2 gi optsToUse2 result0 images dockerfilePath of
        (tr3, Inl e) \<Rightarrow> (optsToUse2, tr3, Inl e)
      | (tr3, Inr result) \<Rightarrow>
     if code result \<noteq> 0 then (optsToUse2, tr3, Inr result) else
     (case postLinkImageWebhook w tr3
             (repo_owner (goalEvent gi)) (repo_name (goalEvent gi)) (sha (goalEvent gi))
             (first_elem images) (workspaceId (pgi_context gi)) of
        (tr4, Inl e) \<Rightarrow> (optsToUse2, tr4, Inl e)
      | (tr4, Inr linked) \<Rightarrow>
          if linked then (optsToUse2, tr4, Inr result)
          else (optsToUse2, tr4, Inr image_link_failed))))))"

section \<open>Observations on the events and a reference environment\<close>

text \<open>The processes spawned, in order, as command and arguments.\<close>

definition spawned :: "event list \<Rightarrow> (string \<times> string list) list" where
  "spawned tr = concat (map (\<lambda>e. case e of Spawn c a _ \<Rightarrow> [(c, a)] | _ \<Rightarrow> []) tr)"

text \<open>The image-link notifications posted, in order.\<close>

definition postLinks :: "event list \<Rightarrow> event list" where
  "postLinks tr = filter is_PostLink tr"

text \<open>
  An environment in which every process exits with 0, the webhook succeeds, the graph knows
  no registry, the configuration lookup hands back its default and nothing is overlaid on
  the options. The concrete runs below are variations of it.
\<close>

definition quiet_world :: world where
  "quiet_world =
     \<lparr>spawnAndWatch_reply = (\<lambda>tr c a. Inr Success),
      isInLocalMode = False,
      projectConfigurationValue = (\<lambda>path p d. d),
      postLinkImageWebhook_reply = (\<lambda>tr ow rn cs im ws. Inr True),
      spawnLog_reply = (\<lambda>tr c a env. Inr Success),
      graphClient_providers = (\<lambda>tr. Inr None),
      graphClient_password = (\<lambda>tr i. Inr []),
      url_host = (\<lambda>u. Inr u),
      homedir = ''/home/sdm'',
      path_join = (\<lambda>a b. a @ ''/'' @ b),
      mergeOptions = (\<lambda>opts. opts)\<rparr>"

text \<open>The first argument of every process spawned, in order: the docker subcommands.\<close>

definition subcommands :: "event list \<Rightarrow> string list" where
  "subcommands tr = concat (map (\<lambda>(c, a). take 1 a) (spawned tr))"

text \<open>An environment whose graph knows one registry, with its credential.\<close>

definition registry_world :: world where
  "registry_world =
     quiet_world
       \<lparr>graphClient_providers :=
          (\<lambda>tr. Inr (Some [\<lparr>url = ''https://r.example.io'', provider_name = ''main'',
                             credential_id = ''c1''\<rparr>])),
        graphClient_password := (\<lambda>tr i. Inr [\<lparr>owner_login = ''bob'', secret = ''pw''\<rparr>]),
        url_host := (\<lambda>u. Inr ''r.example.io'')\<rparr>"

text \<open>An environment in which every process with the given subcommand exits with 125.\<close>

definition failing_world :: "string \<Rightarrow> world" where
  "failing_world sub =
     quiet_world
       \<lparr>spawnAndWatch_reply :=
          (\<lambda>tr c a. if take 1 a = [sub]
                     then Inr \<lparr>code = 125, message = Some ''process failed''\<rparr> else Inr Success),
        spawnLog_reply :=
          (\<lambda>tr c a env. if take 1 a = [sub]
                     then Inr \<lparr>code = 125, message = Some ''process failed''\<rparr> else Inr Success)\<rparr>"

text \<open>An environment in which the image-link webhook answers false.\<close>

definition unlinked_world :: world where
  "unlinked_world = quiet_world\<lparr>postLinkImageWebhook_reply := (\<lambda>tr ow rn cs im ws. Inr False)\<rparr>"

definition failed :: ExecuteGoalResult where
  "failed = \<lparr>code = 125, message = Some ''process failed''\<rparr>"

definition demo_project :: GitProject where
  "demo_project = \<lparr>name = ''demo'', baseDir = ''/tmp/demo''\<rparr>"

definition demo_goal :: SdmGoalEvent where
  "demo_goal = \<lparr>repo_owner = ''acme'', repo_name = ''demo'', sha = ''abc123'',
                 branch = ''master'', goalSetId = ''gs1''\<rparr>"

definition demo_invocation :: GoalInvocation where
  "demo_invocation = \<lparr>gi_sdmGoal = demo_goal, gi_context = \<lparr>workspaceId = ''W1''\<rparr>\<rparr>"

definition demo_run_invocation :: ProjectAwareGoalInvocation where
  "demo_run_invocation =
     \<lparr>goalEvent = demo_goal, pgi_context = \<lparr>workspaceId = ''W1''\<rparr>,
      pgi_project = demo_project\<rparr>"

text \<open>An image name creator that names the image \<open>demo:1\<close> on no registry.\<close>

definition demo_creator :: DockerImageNameCreator where
  "demo_creator p g opts c = Inr \<lparr>img_registry = None, img_name = ''demo'', img_version = ''1''\<rparr>"

definition demo_options :: DockerOptions where
  "demo_options = \<lparr>push = None, registry = None, user = Some ''bob'', password = Some ''pw'',
                    dockerfileFinder = None\<rparr>"

definition demo_run_options :: DockerOptionsPlus where
  "demo_run_options = \<lparr>builder = Some ''docker'', builderArgs = [], builderPath = ''hello-world'',
                        programArgs = [], config = None, registry_entries = None\<rparr>"

section \<open>Facts about the primitives\<close>

lemma test_non_alnum_None: "test_non_alnum None = False"
  by (simp add: test_non_alnum_def alnum_def)

lemma test_non_alnum_Some: "test_non_alnum (Some r) = (\<exists>c\<in>set r. \<not> alnum c)"
  by (simp add: test_non_alnum_def list_ex_iff)

lemma or_true_True: "or_true x = True"
  by (simp add: or_true_def split: option.splits)

lemma sublist_registry: "sublist (apostrophe @ ''registry'' @ apostrophe) push_missing_message"
  unfolding sublist_def push_missing_message_def
  by (rule exI [of _ "''Required configuration missing for pushing docker image. Please make sure to set ''"],
      rule exI [of _ "'', '' @ apostrophe @ ''user'' @ apostrophe
     @ '' and '' @ apostrophe @ ''password'' @ apostrophe @ '' in your configuration.''"]) simp

lemma sublist_user: "sublist (apostrophe @ ''user'' @ apostrophe) push_missing_message"
  unfolding sublist_def push_missing_message_def
  by (rule exI [of _ "''Required configuration missing for pushing docker image. Please make sure to set '' @ apostrophe @ ''registry'' @ apostrophe @ '', ''"],
      rule exI [of _ "'' and '' @ apostrophe @ ''password'' @ apostrophe @ '' in your configuration.''"]) simp

lemma sublist_password: "sublist (apostrophe @ ''password'' @ apostrophe) push_missing_message"
  unfolding sublist_def push_missing_message_def
  by (rule exI [of _ "''Required configuration missing for pushing docker image. Please make sure to set '' @ apostrophe @ ''registry'' @ apostrophe @ '', '' @ apostrophe @ ''user'' @ apostrophe
     @ '' and ''"],
      rule exI [of _ "'' in your configuration.''"]) simp

section \<open>The events of each block\<close>

lemma postLinks_append: "postLinks (xs @ ys) = postLinks xs @ postLinks ys"
  by (simp add: postLinks_def)

lemma checkIsBuilderAvailable_trace:
  "checkIsBuilderAvailable w tr c a = (tr1, x) \<Longrightarrow> tr1 = tr @ [Spawn c a []]"
  by (auto simp: checkIsBuilderAvailable_def spawnLog_def split: sum.splits)

lemma builderProbe_trace:
  "builderProbe w opts = (tr1, x) \<Longrightarrow>
     tr1 = [] \<or> tr1 = [Spawn ''docker'' [''help''] []]
     \<or> tr1 = [Spawn ''/kaniko/executor'' [''--help''] []]"
  by (auto simp: builderProbe_def split: if_splits dest: checkIsBuilderAvailable_trace)

lemma readRegistries_loop_trace:
  "\<exists>evs. fst (readRegistries_loop w tr ps acc) = tr @ evs \<and> list_all is_GraphQuery evs"
proof (induction ps arbitrary: tr acc)
  case Nil
  then show ?case by simp
next
  case (Cons p ps)
  show ?case
  proof (cases "graphClient_password w tr (credential_id p)")
    case (Inl e)
    then show ?thesis by (simp add: Let_def)
  next
    case (Inr credential)
    show ?thesis
    proof (cases "url_host w (url p)")
      case (Inl e)
      with Inr show ?thesis by (simp add: Let_def)
    next
      case host: (Inr h)
      show ?thesis
      proof (cases credential)
        case Nil
        with Inr host show ?thesis by (simp add: Let_def)
      next
        case (Cons c cs)
        from Cons.IH [of "tr @ [GraphQuery ''Password'' (Some (credential_id p))]"]
        obtain evs where
          "fst (readRegistries_loop w (tr @ [GraphQuery ''Password'' (Some (credential_id p))]) ps
                 (acc @ [\<lparr>reg_registry = h, reg_user = Some (owner_login c),
                            reg_password = Some (secret c), reg_label = provider_name p,
                            reg_display = False\<rparr>])) =
             (tr @ [GraphQuery ''Password'' (Some (credential_id p))]) @ evs"
          and "list_all is_GraphQuery evs"
          by blast
        with Inr host Cons show ?thesis
          by (simp add: Let_def)
      qed
    qed
  qed
qed

lemma readRegistries_trace:
  "\<exists>evs. fst (readRegistries w tr ctx) = tr @ evs \<and> list_all is_GraphQuery evs"
proof (cases "graphClient_providers w tr")
  case (Inl e)
  then show ?thesis by (simp add: readRegistries_def Let_def)
next
  case (Inr ps)
  show ?thesis
  proof (cases ps)
    case None
    with Inr show ?thesis by (simp add: readRegistries_def Let_def)
  next
    case (Some l)
    from readRegistries_loop_trace [of w "tr @ [GraphQuery ''DockerRegistryProvider'' None]" l "[]"]
    obtain evs where
      "fst (readRegistries_loop w (tr @ [GraphQuery ''DockerRegistryProvider'' None]) l []) =
         (tr @ [GraphQuery ''DockerRegistryProvider'' None]) @ evs"
      and "list_all is_GraphQuery evs" by blast
    with Inr Some show ?thesis by (simp add: readRegistries_def Let_def)
  qed
qed

lemma graph_only_no_links: "list_all is_GraphQuery evs \<Longrightarrow> postLinks evs = []"
  by (induction evs) (auto simp: postLinks_def is_GraphQuery_def is_PostLink_def)

lemma registryDiscovery_trace:
  "registryDiscovery w tr gi opts = (opts2, tr2, x) \<Longrightarrow>
     \<exists>evs. tr2 = tr @ evs \<and> list_all is_GraphQuery evs"
proof -
  assume a: "registryDiscovery w tr gi opts = (opts2, tr2, x)"
  obtain evs where e: "fst (readRegistries w tr (pgi_context gi)) = tr @ evs"
    and g: "list_all is_GraphQuery evs"
    using readRegistries_trace by blast
  show ?thesis
  proof (cases "\<not> truthy (config opts) \<and> length (toArray (registry_entries opts)) = 0")
    case True
    with a e have "tr2 = tr @ evs"
      by (auto simp: registryDiscovery_def split: prod.splits sum.splits)
    with g show ?thesis by blast
  next
    case False
    with a have "tr2 = tr @ [] \<and> list_all is_GraphQuery []" by (auto simp: registryDiscovery_def)
    then show ?thesis by blast
  qed
qed

lemma registryDiscovery_options:
  "registryDiscovery w tr gi opts = (opts2, tr2, x) \<Longrightarrow>
     opts2 = opts \<or>
     (\<not> truthy (config opts) \<and> toArray (registry_entries opts) = []
        \<and> (\<exists>found. opts2 = opts\<lparr>registry_entries := Some found\<rparr>))"
  by (auto simp: registryDiscovery_def split: if_splits prod.splits sum.splits)

lemma runWithDocker_trace:
  "runWithDocker w tr gi opts = (tr3, x) \<Longrightarrow>
     tr3 = tr @ [Spawn ''docker''
                   ([''run''] @ builderArgs opts @ [builderPath opts] @ programArgs opts)
                   [(''DOCKER_CONFIG'', dockerConfigPath w opts (goalEvent gi))]]"
  by (auto simp: runWithDocker_def spawnLog_def split: sum.splits if_splits)

lemma builderRun_links:
  "builderRun w tr gi opts r0 images dfp = (tr3, x) \<Longrightarrow> postLinks tr3 = postLinks tr"
  by (auto simp: builderRun_def runWithKaniko_def postLinks_def
        split: if_splits dest!: runWithDocker_trace)

lemma dockerPush_options:
  "fst (dockerPush w tr img project options) =
     (if push options = None then options\<lparr>push := Some (\<not> isInLocalMode w)\<rparr> else options)"
  by (simp add: dockerPush_def Let_def split: prod.splits)

lemma executeDockerBuild_options:
  "fst (executeDockerBuild w creator options g p) = options
   \<or> (push options = None
      \<and> fst (executeDockerBuild w creator options g p) = options\<lparr>push := Some (\<not> isInLocalMode w)\<rparr>)"
proof -
  have push': "\<And>tr img o' tr' x. dockerPush w tr img p options = (o', tr', x) \<Longrightarrow>
          o' = options \<or> (push options = None \<and> o' = options\<lparr>push := Some (\<not> isInLocalMode w)\<rparr>)"
  proof -
    fix tr img o' tr' x
    assume "dockerPush w tr img p options = (o', tr', x)"
    then have "fst (dockerPush w tr img p options) = o'" by simp
    then show "o' = options \<or> (push options = None \<and> o' = options\<lparr>push := Some (\<not> isInLocalMode w)\<rparr>)"
      unfolding dockerPush_options by (auto split: if_splits)
  qed
  show ?thesis
    unfolding executeDockerBuild_def
    by (auto split: sum.splits prod.splits if_splits option.splits dest: push')
qed

lemma doDockerRun_options:
  "fst (doDockerRun w options gi) = mergeOptions w options
   \<or> (\<not> truthy (config (mergeOptions w options))
      \<and> toArray (registry_entries (mergeOptions w options)) = []
      \<and> (\<exists>found. fst (doDockerRun w options gi) =
                    (mergeOptions w options)\<lparr>registry_entries := Some found\<rparr>))"
proof -
  obtain tr1 x1 where p: "builderProbe w (mergeOptions w options) = (tr1, x1)"
    by (cases "builderProbe w (mergeOptions w options)")
  obtain o2 tr2 x2 where d: "registryDiscovery w tr1 gi (mergeOptions w options) = (o2, tr2, x2)"
    by (cases "registryDiscovery w tr1 gi (mergeOptions w options)")
  have "fst (doDockerRun w options gi) = mergeOptions w options \<or> fst (doDockerRun w options gi) = o2"
    using p d by (auto simp: doDockerRun_def Let_def split: sum.splits prod.splits)
  with registryDiscovery_options [OF d] show ?thesis by auto
qed

lemma runWithDocker_events:
  "fst (runWithDocker w tr gi opts) =
     tr @ [Spawn ''docker''
             ([''run''] @ builderArgs opts @ [builderPath opts] @ programArgs opts)
             [(''DOCKER_CONFIG'', dockerConfigPath w opts (goalEvent gi))]]"
  using runWithDocker_trace [of w tr gi opts "fst (runWithDocker w tr gi opts)"
          "snd (runWithDocker w tr gi opts)"]
  by simp

lemma subcommands_append: "subcommands (xs @ ys) = subcommands xs @ subcommands ys"
  by (simp add: subcommands_def spawned_def)

lemma dockerLogin_trace:
  "dockerLogin w tr options = (tr1, x) \<Longrightarrow>
     \<exists>evs. tr1 = tr @ evs \<and> postLinks evs = [] \<and> set (subcommands evs) \<subseteq> {''login''}"
  by (auto simp: dockerLogin_def spawnAndWatch_def postLinks_def subcommands_def spawned_def
        Let_def split: option.splits if_splits)

lemma dockerPush_trace:
  "dockerPush w tr img p options = (options', tr1, x) \<Longrightarrow>
     \<exists>evs. tr1 = tr @ evs \<and> postLinks evs = [] \<and> set (subcommands evs) \<subseteq> {''push''}"
  by (auto simp: dockerPush_def spawnAndWatch_def postLinks_def subcommands_def spawned_def
        Let_def split: if_splits)

lemma doDockerRun_fst_cases:
  "fst (doDockerRun w optsPlus gi) =
     (case builderProbe w (mergeOptions w optsPlus) of
        (tr1, Inl e) \<Rightarrow> mergeOptions w optsPlus
      | (tr1, Inr u) \<Rightarrow> fst (registryDiscovery w tr1 gi (mergeOptions w optsPlus)))"
  by (simp add: doDockerRun_def Let_def split: prod.splits sum.splits)

section \<open>The login stage\<close>

text \<open>
  Claim C7. \<open>dockerLogin\<close> spawns \<open>docker login --username u --password p\<close> exactly
  when both user and password are present (for the source's test: defined and not the
  empty string); the registry follows as the login target exactly when it holds a character
  outside \<open>A-Z\<close>, \<open>a-z\<close>, \<open>0-9\<close>; the result is what the process returns. Otherwise
  the only effect is the skip notice in the log, no process is spawned and the result is
  \<open>Success\<close>, whose code is 0.
\<close>

theorem dockerLogin_spec:
  "(truthy (user options) \<and> truthy (password options) \<longrightarrow>
      (\<exists>u p. user options = Some u \<and> password options = Some p \<and>
         dockerLogin w tr options =
           (tr @ [LogWrite login_notice,
                  Spawn ''docker''
                    ([''login'', ''--username'', u, ''--password'', p] @
                     (case registry options of
                        None \<Rightarrow> []
                      | Some r \<Rightarrow> if (\<exists>c\<in>set r. \<not> alnum c) then [r] else [])) []],
            spawnAndWatch_reply w (tr @ [LogWrite login_notice]) ''docker''
                    ([''login'', ''--username'', u, ''--password'', p] @
                     (case registry options of
                        None \<Rightarrow> []
                      | Some r \<Rightarrow> if (\<exists>c\<in>set r. \<not> alnum c) then [r] else [])))))
   \<and> (\<not> (truthy (user options) \<and> truthy (password options)) \<longrightarrow>
        dockerLogin w tr options = (tr @ [LogWrite login_skip_notice], Inr Success)
        \<and> code Success = 0
        \<and> spawned (fst (dockerLogin w tr options)) = spawned tr)"
  by (auto simp: dockerLogin_def truthy_def spawnAndWatch_def test_non_alnum_None
        test_non_alnum_Some Success_def spawned_def Let_def split: option.splits)


text \<open>
  The theorem at three concrete options: a registry host with a dot, a registry made of
  letters only, and a missing password.
\<close>

theorem dockerLogin_spec_witness:
  "dockerLogin quiet_world [] (demo_options\<lparr>registry := Some ''r.example.io''\<rparr>) =
     ([LogWrite login_notice,
       Spawn ''docker'' [''login'', ''--username'', ''bob'', ''--password'', ''pw'', ''r.example.io''] []],
      Inr Success)
   \<and> dockerLogin quiet_world [] (demo_options\<lparr>registry := Some ''acme''\<rparr>) =
     ([LogWrite login_notice,
       Spawn ''docker'' [''login'', ''--username'', ''bob'', ''--password'', ''pw''] []],
      Inr Success)
   \<and> dockerLogin quiet_world [] (demo_options\<lparr>password := None\<rparr>) =
     ([LogWrite login_skip_notice], Inr Success)"
  using dockerLogin_spec [of "demo_options\<lparr>registry := Some ''r.example.io''\<rparr>" quiet_world "[]"]
        dockerLogin_spec [of "demo_options\<lparr>registry := Some ''acme''\<rparr>" quiet_world "[]"]
        dockerLogin_spec [of "demo_options\<lparr>password := None\<rparr>" quiet_world "[]"]
  by (simp add: demo_options_def quiet_world_def truthy_def alnum_def)

section \<open>The push stage\<close>

text \<open>
  Claim C3. When the push gate is open (the lookup of \<open>docker.push.enabled\<close> comes back
  truthy; its default argument \<open>options.push || true\<close> is \<open>true\<close> for every push
  flag, so this covers push true and push defaulted on) and user or password is absent, the
  push stage returns code 1 with the configuration-missing message, which names
  \<open>'registry'\<close>, \<open>'user'\<close> and \<open>'password'\<close>; its only effect is writing that message
  to the log, so no process is spawned.
\<close>

theorem dockerPush_missing_credentials:
  assumes "projectConfigurationValue w ''docker.push.enabled'' project True"
      and "user options = None \<or> password options = None"
  shows "dockerPush w tr img project options =
             (if push options = None then options\<lparr>push := Some (\<not> isInLocalMode w)\<rparr> else options,
              tr @ [LogWrite push_missing_message],
              Inr \<lparr>code = 1, message = Some push_missing_message\<rparr>)
         \<and> spawned (tr @ [LogWrite push_missing_message]) = spawned tr
         \<and> sublist (apostrophe @ ''registry'' @ apostrophe) push_missing_message
         \<and> sublist (apostrophe @ ''user'' @ apostrophe) push_missing_message
         \<and> sublist (apostrophe @ ''password'' @ apostrophe) push_missing_message"
  using assms sublist_registry sublist_user sublist_password
  by (auto simp: dockerPush_def Let_def or_true_True truthy_def spawned_def)


text \<open>The theorem with push set to true and no user, and with push defaulted on and no password.\<close>

theorem dockerPush_missing_credentials_witness:
  "dockerPush quiet_world [] ''demo:1'' demo_project (demo_options\<lparr>push := Some True, user := None\<rparr>) =
     (demo_options\<lparr>push := Some True, user := None\<rparr>, [LogWrite push_missing_message],
      Inr \<lparr>code = 1, message = Some push_missing_message\<rparr>)
   \<and> dockerPush quiet_world [] ''demo:1'' demo_project (demo_options\<lparr>password := None\<rparr>) =
     (demo_options\<lparr>push := Some True, password := None\<rparr>, [LogWrite push_missing_message],
      Inr \<lparr>code = 1, message = Some push_missing_message\<rparr>)"
proof -
  have gate: "projectConfigurationValue quiet_world ''docker.push.enabled'' demo_project True"
    by (simp add: quiet_world_def)
  have a: "user (demo_options\<lparr>push := Some True, user := None\<rparr>) = None
             \<or> password (demo_options\<lparr>push := Some True, user := None\<rparr>) = None"
    by simp
  have b: "user (demo_options\<lparr>password := None\<rparr>) = None
             \<or> password (demo_options\<lparr>password := None\<rparr>) = None"
    by simp
  show ?thesis
    using dockerPush_missing_credentials [OF gate a, of "[]" "''demo:1''"]
          dockerPush_missing_credentials [OF gate b, of "[]" "''demo:1''"]
    by (simp add: demo_options_def quiet_world_def)
qed

text \<open>
  Claim C2. With push explicitly false the push stage is not skipped: the default handed
  to the configuration lookup is \<open>options.push || true\<close>, which is \<open>true\<close> whatever the
  flag says. In the reference environment, with credentials the whole goal runs
  \<open>docker push demo:1\<close>; without credentials the push stage fails with code 1.
\<close>

theorem push_false_still_pushes:
  "executeDockerBuild quiet_world demo_creator (demo_options\<lparr>push := Some False\<rparr>)
       demo_invocation demo_project =
     (demo_options\<lparr>push := Some False\<rparr>,
      [LogWrite login_notice,
       Spawn ''docker'' [''login'', ''--username'', ''bob'', ''--password'', ''pw''] [],
       Spawn ''docker'' [''build'', ''.'', ''-f'', ''Dockerfile'', ''-t'', ''demo:1''] [],
       Spawn ''docker'' [''push'', ''demo:1''] [],
       PostLink ''acme'' ''demo'' ''abc123'' (Some ''demo:1'') ''W1''],
      Inr Success)
   \<and> executeDockerBuild quiet_world demo_creator
       (demo_options\<lparr>push := Some False, user := None, password := None\<rparr>)
       demo_invocation demo_project =
     (demo_options\<lparr>push := Some False, user := None, password := None\<rparr>,
      [LogWrite login_skip_notice,
       Spawn ''docker'' [''build'', ''.'', ''-f'', ''Dockerfile'', ''-t'', ''demo:1''] [],
       LogWrite push_missing_message],
      Inr \<lparr>code = 1, message = Some push_missing_message\<rparr>)"
  by (simp add: executeDockerBuild_def dockerLogin_def dockerPush_def spawnAndWatch_def
        postLinkImageWebhook_def quiet_world_def demo_options_def demo_creator_def
        demo_invocation_def demo_goal_def demo_project_def image_of_def truthy_def
        test_non_alnum_None or_true_True Success_def Let_def)

section \<open>The builder probe\<close>

text \<open>
  Claim C6, as amended. The probe fails for the executor only when its spawn is rejected
  (the builder cannot be started): then the goal fails with the error that names the
  builder, and the probe is the only effect, with no registry query, no further process
  and no notification. A probe that starts and exits passes whatever its exit code, which
  \<open>checkIsBuilderAvailable\<close> does not look at; a builder that is neither \<open>docker\<close> nor
  \<open>kaniko\<close> is not probed.
\<close>

theorem probe_failure_short_circuits:
  "(builder (mergeOptions w options) = Some ''docker''
      \<and> spawnLog_reply w [] ''docker'' [''help''] [] = Inl e \<longrightarrow>
      doDockerRun w options gi =
        (mergeOptions w options, [Spawn ''docker'' [''help''] []],
         Inl (Error (''Configured Docker image builder '' @ apostrophe @ ''docker''
                     @ apostrophe @ '' is not available''))))
   \<and> (builder (mergeOptions w options) = Some ''kaniko''
      \<and> spawnLog_reply w [] ''/kaniko/executor'' [''--help''] [] = Inl e \<longrightarrow>
      doDockerRun w options gi =
        (mergeOptions w options, [Spawn ''/kaniko/executor'' [''--help''] []],
         Inl (Error (''Configured Docker image builder '' @ apostrophe @ ''/kaniko/executor''
                     @ apostrophe @ '' is not available''))))
   \<and> (builder (mergeOptions w options) = Some ''docker''
      \<and> spawnLog_reply w [] ''docker'' [''help''] [] = Inr r \<longrightarrow>
      builderProbe w (mergeOptions w options) = ([Spawn ''docker'' [''help''] []], Inr ()))
   \<and> (builder (mergeOptions w options) = Some ''kaniko''
      \<and> spawnLog_reply w [] ''/kaniko/executor'' [''--help''] [] = Inr r \<longrightarrow>
      builderProbe w (mergeOptions w options) =
        ([Spawn ''/kaniko/executor'' [''--help''] []], Inr ()))
   \<and> (builder (mergeOptions w options) \<noteq> Some ''docker''
      \<and> builder (mergeOptions w options) \<noteq> Some ''kaniko'' \<longrightarrow>
      builderProbe w (mergeOptions w options) = ([], Inr ()))"
  by (simp add: doDockerRun_def builderProbe_def checkIsBuilderAvailable_def spawnLog_def Let_def)

text \<open>
  Claim C6 as stated fails when failure is a nonzero exit: with \<open>docker help\<close> exiting
  with 125 the run goal goes on to query the graph, run the container and post the
  notification, and succeeds.
\<close>

theorem probe_nonzero_exit_counterexample:
  "spawnLog_reply (failing_world ''help'') [] ''docker'' [''help''] [] =
     Inr \<lparr>code = 125, message = Some ''process failed''\<rparr>
   \<and> doDockerRun (failing_world ''help'') demo_run_options demo_run_invocation =
     (demo_run_options\<lparr>registry_entries := Some []\<rparr>,
      [Spawn ''docker'' [''help''] [],
       GraphQuery ''DockerRegistryProvider'' None,
       Spawn ''docker'' [''run'', ''hello-world''] [(''DOCKER_CONFIG'', None)],
       PostLink ''acme'' ''demo'' ''abc123'' None ''W1''],
      Inr \<lparr>code = 0, message = None\<rparr>)"
  by (simp add: doDockerRun_def builderProbe_def registryDiscovery_def builderRun_def
        checkIsBuilderAvailable_def spawnLog_def readRegistries_def runWithDocker_def
        postLinkImageWebhook_def dockerConfigPath_def first_elem_def
        failing_world_def quiet_world_def demo_run_options_def demo_run_invocation_def
        demo_goal_def toArray_def truthy_def Success_def Let_def)

text \<open>
  The amended claim for a \<open>docker\<close> binary and a kaniko executor that cannot be
  started, for probes of both that exit with 125, and for no builder.
\<close>

theorem probe_failure_short_circuits_witness:
  "doDockerRun (quiet_world\<lparr>spawnLog_reply := (\<lambda>tr c a env. Inl (Error ''spawn docker ENOENT''))\<rparr>)
       demo_run_options demo_run_invocation =
     (demo_run_options, [Spawn ''docker'' [''help''] []],
      Inl (Error (''Configured Docker image builder '' @ apostrophe @ ''docker''
                     @ apostrophe @ '' is not available'')))
   \<and> doDockerRun (quiet_world\<lparr>spawnLog_reply := (\<lambda>tr c a env. Inl (Error ''spawn ENOENT''))\<rparr>)
       (demo_run_options\<lparr>builder := Some ''kaniko''\<rparr>) demo_run_invocation =
     (demo_run_options\<lparr>builder := Some ''kaniko''\<rparr>, [Spawn ''/kaniko/executor'' [''--help''] []],
      Inl (Error (''Configured Docker image builder '' @ apostrophe @ ''/kaniko/executor''
                     @ apostrophe @ '' is not available'')))
   \<and> builderProbe (failing_world ''help'') demo_run_options = ([Spawn ''docker'' [''help''] []], Inr ())
   \<and> builderProbe (failing_world ''--help'') (demo_run_options\<lparr>builder := Some ''kaniko''\<rparr>) =
       ([Spawn ''/kaniko/executor'' [''--help''] []], Inr ())
   \<and> builderProbe quiet_world (demo_run_options\<lparr>builder := None\<rparr>) = ([], Inr ())"
  using probe_failure_short_circuits
          [of "quiet_world\<lparr>spawnLog_reply := (\<lambda>tr c a env. Inl (Error ''spawn docker ENOENT''))\<rparr>"
              demo_run_options "Error ''spawn docker ENOENT''" demo_run_invocation]
        probe_failure_short_circuits
          [of "quiet_world\<lparr>spawnLog_reply := (\<lambda>tr c a env. Inl (Error ''spawn ENOENT''))\<rparr>"
              "demo_run_options\<lparr>builder := Some ''kaniko''\<rparr>" "Error ''spawn ENOENT''"
              demo_run_invocation]
        probe_failure_short_circuits
          [of "failing_world ''help''" demo_run_options _ _
              "\<lparr>code = 125, message = Some ''process failed''\<rparr>"]
        probe_failure_short_circuits
          [of "failing_world ''--help''" "demo_run_options\<lparr>builder := Some ''kaniko''\<rparr>" _ _
              "\<lparr>code = 125, message = Some ''process failed''\<rparr>"]
        probe_failure_short_circuits
          [of quiet_world "demo_run_options\<lparr>builder := None\<rparr>"]
  by (simp add: quiet_world_def failing_world_def demo_run_options_def)

section \<open>The notification of the run goal\<close>

text \<open>
  Claim C10. In \<open>doDockerRun\<close> the list \<open>images\<close> is empty and no image name is
  computed, so the goal posts at most one image-link notification, and whenever it posts
  one the image reference is \<open>images[0]\<close> of the empty list: \<open>undefined\<close>.
\<close>

theorem doDockerRun_links_undefined_image:
  "postLinks (fst (snd (doDockerRun w options gi))) = []
   \<or> postLinks (fst (snd (doDockerRun w options gi))) =
       [PostLink (repo_owner (goalEvent gi)) (repo_name (goalEvent gi)) (sha (goalEvent gi))
          None (workspaceId (pgi_context gi))]"
proof -
  obtain tr1 x1 where p: "builderProbe w (mergeOptions w options) = (tr1, x1)"
    by (cases "builderProbe w (mergeOptions w options)")
  have l1: "postLinks tr1 = []"
    using builderProbe_trace [OF p] by (auto simp: postLinks_def)
  obtain o2 tr2 x2 where d: "registryDiscovery w tr1 gi (mergeOptions w options) = (o2, tr2, x2)"
    by (cases "registryDiscovery w tr1 gi (mergeOptions w options)")
  have l2: "postLinks tr2 = []"
    using registryDiscovery_trace [OF d] l1 graph_only_no_links
    by (auto simp: postLinks_append)
  obtain tr3 x3 where
    r: "builderRun w tr2 gi o2 \<lparr>code = 0, message = None\<rparr> [] [] = (tr3, x3)"
    by (cases "builderRun w tr2 gi o2 \<lparr>code = 0, message = None\<rparr> [] []")
  have l3: "postLinks tr3 = []"
    using builderRun_links [OF r] l2 by simp
  show ?thesis
    using p d r l1 l2 l3
    by (auto simp: doDockerRun_def Let_def postLinkImageWebhook_def first_elem_def
          postLinks_append postLinks_def split: sum.splits)
qed

text \<open>In the reference environment the notification is reached and carries no image.\<close>

theorem doDockerRun_links_undefined_image_witness:
  "postLinks (fst (snd (doDockerRun quiet_world demo_run_options demo_run_invocation))) =
     [PostLink ''acme'' ''demo'' ''abc123'' None ''W1'']"
proof -
  have "postLinks (fst (snd (doDockerRun quiet_world demo_run_options demo_run_invocation))) \<noteq> []"
    by (simp add: doDockerRun_def builderProbe_def registryDiscovery_def builderRun_def
          checkIsBuilderAvailable_def spawnLog_def readRegistries_def runWithDocker_def
          postLinkImageWebhook_def quiet_world_def demo_run_options_def truthy_def toArray_def
          Success_def postLinks_def Let_def)
  then show ?thesis
    using doDockerRun_links_undefined_image [of quiet_world demo_run_options demo_run_invocation]
    by (simp add: demo_run_invocation_def demo_goal_def)
qed

section \<open>The options across the stages\<close>

text \<open>
  Claim C9, as amended. The options are not immutable: \<open>dockerPush\<close> assigns
  \<open>options.push\<close> the value \<open>!isInLocalMode()\<close> when it is undefined and leaves the
  options alone otherwise; that is the only change \<open>executeDockerBuild\<close> makes, and it
  makes it whenever login and build have returned code 0. \<open>doDockerRun\<close> assigns to
  \<open>optsToUse.registry\<close> the list that \<open>readRegistries\<close> returns, when the probe has
  passed and neither a \<open>config\<close> nor a registry entry is configured; it leaves the merged
  options alone when the probe or the registry query fails and when a \<open>config\<close> or a
  registry entry is configured. No other field changes.
\<close>

theorem options_change_only_by_defaulting:
  "fst (dockerPush w tr img project options) =
     (if push options = None then options\<lparr>push := Some (\<not> isInLocalMode w)\<rparr> else options)
   \<and> (fst (executeDockerBuild w creator options g p) = options
      \<or> (push options = None
         \<and> fst (executeDockerBuild w creator options g p) =
             options\<lparr>push := Some (\<not> isInLocalMode w)\<rparr>))
   \<and> (fst (doDockerRun w optsPlus gi) = mergeOptions w optsPlus
      \<or> (\<not> truthy (config (mergeOptions w optsPlus))
         \<and> toArray (registry_entries (mergeOptions w optsPlus)) = []
         \<and> (\<exists>found. fst (doDockerRun w optsPlus gi) =
                    (mergeOptions w optsPlus)\<lparr>registry_entries := Some found\<rparr>)))
   \<and> (creator p (gi_sdmGoal g) options (gi_context g) = Inr imageName
      \<and> (case dockerfileFinder options of Some f \<Rightarrow> f p | None \<Rightarrow> Inr ''Dockerfile'')
          = Inr dockerfilePath
      \<and> dockerLogin w [] options = (tr1, Inr r1) \<and> code r1 = 0
      \<and> spawnAndWatch w tr1 ''docker''
            [''build'', ''.'', ''-f'', dockerfilePath, ''-t'', image_of imageName] = (tr2, Inr r2)
      \<and> code r2 = 0
    \<longrightarrow> fst (executeDockerBuild w creator options g p) =
          (if push options = None then options\<lparr>push := Some (\<not> isInLocalMode w)\<rparr>
           else options))
   \<and> (builderProbe w (mergeOptions w optsPlus) = (tr4, Inr ())
      \<and> \<not> truthy (config (mergeOptions w optsPlus))
      \<and> toArray (registry_entries (mergeOptions w optsPlus)) = []
      \<and> readRegistries w tr4 (pgi_context gi) = (tr5, Inr found)
    \<longrightarrow> fst (doDockerRun w optsPlus gi) =
          (mergeOptions w optsPlus)\<lparr>registry_entries := Some found\<rparr>)
   \<and> (builderProbe w (mergeOptions w optsPlus) = (tr4, Inr ())
      \<and> readRegistries w tr4 (pgi_context gi) = (tr5, Inl e)
    \<longrightarrow> fst (doDockerRun w optsPlus gi) = mergeOptions w optsPlus)
   \<and> (builderProbe w (mergeOptions w optsPlus) = (tr4, Inl e)
    \<longrightarrow> fst (doDockerRun w optsPlus gi) = mergeOptions w optsPlus)
   \<and> (truthy (config (mergeOptions w optsPlus))
      \<or> toArray (registry_entries (mergeOptions w optsPlus)) \<noteq> []
    \<longrightarrow> fst (doDockerRun w optsPlus gi) = mergeOptions w optsPlus)"
proof (intro conjI)
  show "fst (dockerPush w tr img project options) =
     (if push options = None then options\<lparr>push := Some (\<not> isInLocalMode w)\<rparr> else options)"
    by (rule dockerPush_options)
  show "fst (executeDockerBuild w creator options g p) = options
      \<or> (push options = None
         \<and> fst (executeDockerBuild w creator options g p) =
             options\<lparr>push := Some (\<not> isInLocalMode w)\<rparr>)"
    by (rule executeDockerBuild_options)
  show "fst (doDockerRun w optsPlus gi) = mergeOptions w optsPlus
      \<or> (\<not> truthy (config (mergeOptions w optsPlus))
         \<and> toArray (registry_entries (mergeOptions w optsPlus)) = []
         \<and> (\<exists>found. fst (doDockerRun w optsPlus gi) =
                    (mergeOptions w optsPlus)\<lparr>registry_entries := Some found\<rparr>))"
    by (rule doDockerRun_options)
  show "creator p (gi_sdmGoal g) options (gi_context g) = Inr imageName
      \<and> (case dockerfileFinder options of Some f \<Rightarrow> f p | None \<Rightarrow> Inr ''Dockerfile'')
          = Inr dockerfilePath
      \<and> dockerLogin w [] options = (tr1, Inr r1) \<and> code r1 = 0
      \<and> spawnAndWatch w tr1 ''docker''
            [''build'', ''.'', ''-f'', dockerfilePath, ''-t'', image_of imageName] = (tr2, Inr r2)
      \<and> code r2 = 0
    \<longrightarrow> fst (executeDockerBuild w creator options g p) =
          (if push options = None then options\<lparr>push := Some (\<not> isInLocalMode w)\<rparr>
           else options)"
  proof (intro impI, elim conjE)
    assume a: "creator p (gi_sdmGoal g) options (gi_context g) = Inr imageName"
      "(case dockerfileFinder options of Some f \<Rightarrow> f p | None \<Rightarrow> Inr ''Dockerfile'')
          = Inr dockerfilePath"
      "dockerLogin w [] options = (tr1, Inr r1)" "code r1 = 0"
      "spawnAndWatch w tr1 ''docker''
            [''build'', ''.'', ''-f'', dockerfilePath, ''-t'', image_of imageName] = (tr2, Inr r2)"
      "code r2 = 0"
    have "fst (executeDockerBuild w creator options g p) =
            fst (dockerPush w tr2 (image_of imageName) p options)"
      using a by (simp add: executeDockerBuild_def split: prod.splits sum.splits)
    then show "fst (executeDockerBuild w creator options g p) =
          (if push options = None then options\<lparr>push := Some (\<not> isInLocalMode w)\<rparr>
           else options)"
      by (simp only: dockerPush_options)
  qed
  show "builderProbe w (mergeOptions w optsPlus) = (tr4, Inr ())
      \<and> \<not> truthy (config (mergeOptions w optsPlus))
      \<and> toArray (registry_entries (mergeOptions w optsPlus)) = []
      \<and> readRegistries w tr4 (pgi_context gi) = (tr5, Inr found)
    \<longrightarrow> fst (doDockerRun w optsPlus gi) =
          (mergeOptions w optsPlus)\<lparr>registry_entries := Some found\<rparr>"
    by (simp add: doDockerRun_fst_cases registryDiscovery_def)
  show "builderProbe w (mergeOptions w optsPlus) = (tr4, Inr ())
      \<and> readRegistries w tr4 (pgi_context gi) = (tr5, Inl e)
    \<longrightarrow> fst (doDockerRun w optsPlus gi) = mergeOptions w optsPlus"
    by (simp add: doDockerRun_fst_cases registryDiscovery_def)
  show "builderProbe w (mergeOptions w optsPlus) = (tr4, Inl e)
    \<longrightarrow> fst (doDockerRun w optsPlus gi) = mergeOptions w optsPlus"
    by (simp add: doDockerRun_fst_cases)
  show "truthy (config (mergeOptions w optsPlus))
      \<or> toArray (registry_entries (mergeOptions w optsPlus)) \<noteq> []
    \<longrightarrow> fst (doDockerRun w optsPlus gi) = mergeOptions w optsPlus"
    by (auto simp: doDockerRun_fst_cases registryDiscovery_def split: prod.splits sum.splits)
qed

text \<open>
  Claim C9 as stated fails: after one build goal on options without a push flag the flag
  is set, and after one run goal in an environment whose graph knows a registry the
  registry list of the merged options holds it.
\<close>

theorem options_immutable_counterexample:
  "push demo_options = None
   \<and> push (fst (executeDockerBuild quiet_world demo_creator demo_options demo_invocation
                  demo_project)) = Some True
   \<and> registry_entries (mergeOptions registry_world demo_run_options) = None
   \<and> registry_entries (fst (doDockerRun registry_world demo_run_options demo_run_invocation)) =
       Some [\<lparr>reg_registry = ''r.example.io'', reg_user = Some ''bob'',
               reg_password = Some ''pw'', reg_label = ''main'', reg_display = False\<rparr>]"
  by (simp add: executeDockerBuild_def dockerLogin_def dockerPush_def spawnAndWatch_def
        postLinkImageWebhook_def quiet_world_def demo_options_def demo_creator_def
        demo_invocation_def demo_goal_def demo_project_def image_of_def truthy_def
        test_non_alnum_None or_true_True Success_def Let_def
        doDockerRun_def builderProbe_def registryDiscovery_def builderRun_def
        checkIsBuilderAvailable_def spawnLog_def readRegistries_def runWithDocker_def
        registry_world_def demo_run_options_def demo_run_invocation_def toArray_def)

text \<open>
  The amended claim on build options without a push flag and with push false; on run
  options in an environment whose graph knows a registry, whose registry query is rejected
  and whose builder cannot be started; and on run options with a \<open>config\<close>.
\<close>

theorem options_change_only_by_defaulting_witness:
  "fst (dockerPush quiet_world [] ''demo:1'' demo_project demo_options) =
     demo_options\<lparr>push := Some True\<rparr>
   \<and> fst (dockerPush quiet_world [] ''demo:1'' demo_project (demo_options\<lparr>push := Some False\<rparr>)) =
     demo_options\<lparr>push := Some False\<rparr>
   \<and> fst (executeDockerBuild quiet_world demo_creator (demo_options\<lparr>push := Some False\<rparr>)
            demo_invocation demo_project) = demo_options\<lparr>push := Some False\<rparr>
   \<and> fst (executeDockerBuild quiet_world demo_creator demo_options demo_invocation demo_project) =
     demo_options\<lparr>push := Some True\<rparr>
   \<and> fst (doDockerRun registry_world demo_run_options demo_run_invocation) =
     demo_run_options\<lparr>registry_entries :=
       Some [\<lparr>reg_registry = ''r.example.io'', reg_user = Some ''bob'',
               reg_password = Some ''pw'', reg_label = ''main'', reg_display = False\<rparr>]\<rparr>
   \<and> fst (doDockerRun (quiet_world\<lparr>graphClient_providers := (\<lambda>tr. Inl (Error ''graph query failed''))\<rparr>)
            demo_run_options demo_run_invocation) = demo_run_options
   \<and> fst (doDockerRun (quiet_world\<lparr>spawnLog_reply := (\<lambda>tr c a env. Inl (Error ''spawn docker ENOENT''))\<rparr>)
            demo_run_options demo_run_invocation) = demo_run_options
   \<and> fst (doDockerRun quiet_world (demo_run_options\<lparr>config := Some ''{}''\<rparr>) demo_run_invocation) =
     demo_run_options\<lparr>config := Some ''{}''\<rparr>"
proof -
  let ?login = "[LogWrite login_notice,
       Spawn ''docker'' [''login'', ''--username'', ''bob'', ''--password'', ''pw''] []]"
  let ?build = "Spawn ''docker'' [''build'', ''.'', ''-f'', ''Dockerfile'', ''-t'', ''demo:1''] []"
  let ?name = "\<lparr>img_registry = None, img_name = ''demo'', img_version = ''1''\<rparr>"
  let ?probe = "[Spawn ''docker'' [''help''] []]"
  let ?gw = "quiet_world\<lparr>graphClient_providers := (\<lambda>tr. Inl (Error ''graph query failed''))\<rparr>"
  let ?sw = "quiet_world\<lparr>spawnLog_reply := (\<lambda>tr c a env. Inl (Error ''spawn docker ENOENT''))\<rparr>"
  let ?reg = "[\<lparr>reg_registry = ''r.example.io'', reg_user = Some ''bob'',
               reg_password = Some ''pw'', reg_label = ''main'', reg_display = False\<rparr>]"
  note claim = options_change_only_by_defaulting
  have image: "image_of ?name = ''demo:1''"
    by (simp add: image_of_def truthy_def)
  have creator: "\<And>opts. demo_creator demo_project (gi_sdmGoal demo_invocation) opts
                   (gi_context demo_invocation) = Inr ?name"
    by (simp add: demo_creator_def)
  have finder: "\<And>b. (case dockerfileFinder (demo_options\<lparr>push := b\<rparr>) of Some f \<Rightarrow> f demo_project
                 | None \<Rightarrow> Inr ''Dockerfile'') = Inr ''Dockerfile''"
    by (simp add: demo_options_def)
  have login: "\<And>b. dockerLogin quiet_world [] (demo_options\<lparr>push := b\<rparr>) = (?login, Inr Success)"
    by (simp add: dockerLogin_def spawnAndWatch_def quiet_world_def
          demo_options_def test_non_alnum_None Let_def)
  have build: "spawnAndWatch quiet_world ?login ''docker''
                 [''build'', ''.'', ''-f'', ''Dockerfile'', ''-t'', image_of ?name] =
               (?login @ [?build], Inr Success)"
    by (simp add: spawnAndWatch_def quiet_world_def image)
  have c0: "code Success = 0"
    by (simp add: Success_def)
  have 1: "fst (dockerPush quiet_world [] ''demo:1'' demo_project demo_options) =
             demo_options\<lparr>push := Some True\<rparr>"
    using claim [THEN conjunct1, of quiet_world "[]" "''demo:1''" demo_project demo_options]
    by (simp add: quiet_world_def demo_options_def)
  have 2: "fst (dockerPush quiet_world [] ''demo:1'' demo_project (demo_options\<lparr>push := Some False\<rparr>)) =
             demo_options\<lparr>push := Some False\<rparr>"
    using claim [THEN conjunct1, of quiet_world "[]" "''demo:1''" demo_project
                   "demo_options\<lparr>push := Some False\<rparr>"]
    by simp
  have 3: "fst (executeDockerBuild quiet_world demo_creator (demo_options\<lparr>push := Some False\<rparr>)
            demo_invocation demo_project) = demo_options\<lparr>push := Some False\<rparr>"
    using claim [where creator = demo_creator and p = demo_project and g = demo_invocation
                   and options = "demo_options\<lparr>push := Some False\<rparr>",
                 THEN conjunct2, THEN conjunct2, THEN conjunct2, THEN conjunct1, rule_format,
                 OF conjI [OF creator conjI [OF finder conjI [OF login conjI [OF c0
                   conjI [OF build c0]]]]]]
    by simp
  have 4: "fst (executeDockerBuild quiet_world demo_creator demo_options demo_invocation
             demo_project) = demo_options\<lparr>push := Some True\<rparr>"
    using claim [where creator = demo_creator and p = demo_project and g = demo_invocation
                   and options = "demo_options\<lparr>push := None\<rparr>",
                 THEN conjunct2, THEN conjunct2, THEN conjunct2, THEN conjunct1, rule_format,
                 OF conjI [OF creator conjI [OF finder conjI [OF login conjI [OF c0
                   conjI [OF build c0]]]]]]
    by (simp add: quiet_world_def demo_options_def)
  have probe: "\<And>w. spawnLog_reply w = spawnLog_reply quiet_world \<Longrightarrow> mergeOptions w = (\<lambda>opts. opts)
                 \<Longrightarrow> builderProbe w (mergeOptions w demo_run_options) = (?probe, Inr ())"
    by (simp add: builderProbe_def checkIsBuilderAvailable_def spawnLog_def
          quiet_world_def demo_run_options_def)
  have cfg: "\<And>w. mergeOptions w = (\<lambda>opts. opts) \<Longrightarrow>
               \<not> truthy (config (mergeOptions w demo_run_options))
               \<and> toArray (registry_entries (mergeOptions w demo_run_options)) = []"
    by (simp add: demo_run_options_def truthy_def toArray_def)
  have found: "readRegistries registry_world ?probe (pgi_context demo_run_invocation) =
                 (?probe @ [GraphQuery ''DockerRegistryProvider'' None,
                            GraphQuery ''Password'' (Some ''c1'')], Inr ?reg)"
    by (simp add: readRegistries_def registry_world_def quiet_world_def Let_def)
  have rejected: "readRegistries ?gw ?probe (pgi_context demo_run_invocation) =
                    (?probe @ [GraphQuery ''DockerRegistryProvider'' None],
                     Inl (Error ''graph query failed''))"
    by (simp add: readRegistries_def quiet_world_def Let_def)
  have noprobe: "builderProbe ?sw (mergeOptions ?sw demo_run_options) =
                   (?probe, Inl (Error (''Configured Docker image builder '' @ apostrophe
                      @ ''docker'' @ apostrophe @ '' is not available'')))"
    by (simp add: builderProbe_def checkIsBuilderAvailable_def spawnLog_def
          quiet_world_def demo_run_options_def)
  have 5: "fst (doDockerRun registry_world demo_run_options demo_run_invocation) =
             demo_run_options\<lparr>registry_entries := Some ?reg\<rparr>"
    using claim [THEN conjunct2, THEN conjunct2, THEN conjunct2, THEN conjunct2, THEN conjunct1,
                 rule_format,
                 OF conjI [OF probe [of registry_world] conjI [OF cfg [of registry_world,
                      THEN conjunct1] conjI [OF cfg [of registry_world, THEN conjunct2] found]]]]
    by (simp add: registry_world_def quiet_world_def)
  have 6: "fst (doDockerRun ?gw demo_run_options demo_run_invocation) = demo_run_options"
    using claim [THEN conjunct2, THEN conjunct2, THEN conjunct2, THEN conjunct2, THEN conjunct2,
                 THEN conjunct1, rule_format, OF conjI [OF probe [of ?gw] rejected]]
    by (simp add: quiet_world_def)
  have 7: "fst (doDockerRun ?sw demo_run_options demo_run_invocation) = demo_run_options"
    using claim [THEN conjunct2, THEN conjunct2, THEN conjunct2, THEN conjunct2, THEN conjunct2,
                 THEN conjunct2, THEN conjunct1, rule_format, OF noprobe]
    by (simp add: quiet_world_def)
  have 8: "fst (doDockerRun quiet_world (demo_run_options\<lparr>config := Some ''{}''\<rparr>)
             demo_run_invocation) = demo_run_options\<lparr>config := Some ''{}''\<rparr>"
    using claim [THEN conjunct2, THEN conjunct2, THEN conjunct2, THEN conjunct2, THEN conjunct2,
                 THEN conjunct2, THEN conjunct2, rule_format,
                 of quiet_world "demo_run_options\<lparr>config := Some ''{}''\<rparr>" demo_run_invocation]
    by (simp add: quiet_world_def demo_run_options_def truthy_def)
  show ?thesis
    using 1 2 3 4 5 6 7 8 by simp
qed

section \<open>The credential directory of the run goal\<close>

text \<open>
  Claim C8, as amended. \<open>docker run\<close> is spawned with \<open>DOCKER_CONFIG\<close> set to what
  \<open>dockerConfigPath\<close> returns. That path is keyed by the goal set id only when no
  configured registry has both user and password and a \<open>config\<close> is given: then it is
  \<open>.docker-<goalSetId>\<close> under the home directory, a name that differs for different
  goal set ids. When some registry has both user and password it is the shared
  \<open>.docker\<close> under the home directory, whatever the invocation; otherwise it is
  undefined.
\<close>

theorem docker_config_scoping:
  "fst (runWithDocker w tr gi opts) =
     tr @ [Spawn ''docker''
             ([''run''] @ builderArgs opts @ [builderPath opts] @ programArgs opts)
             [(''DOCKER_CONFIG'', dockerConfigPath w opts (goalEvent gi))]]
   \<and> ((\<exists>r\<in>set (toArray (registry_entries opts)). truthy (reg_user r) \<and> truthy (reg_password r))
        \<longrightarrow> dockerConfigPath w opts ge = Some (path_join w (homedir w) ''.docker''))
   \<and> (\<not> (\<exists>r\<in>set (toArray (registry_entries opts)). truthy (reg_user r) \<and> truthy (reg_password r))
        \<and> truthy (config opts)
        \<longrightarrow> dockerConfigPath w opts ge =
              Some (path_join w (homedir w) (''.docker-'' @ goalSetId ge)))
   \<and> (\<not> (\<exists>r\<in>set (toArray (registry_entries opts)). truthy (reg_user r) \<and> truthy (reg_password r))
        \<and> \<not> truthy (config opts)
        \<longrightarrow> dockerConfigPath w opts ge = None)
   \<and> (goalSetId ge \<noteq> goalSetId ge' \<longrightarrow> ''.docker-'' @ goalSetId ge \<noteq> ''.docker-'' @ goalSetId ge')"
proof -
  have paths:
    "((\<exists>r\<in>set (toArray (registry_entries opts)). truthy (reg_user r) \<and> truthy (reg_password r))
        \<longrightarrow> dockerConfigPath w opts ge = Some (path_join w (homedir w) ''.docker''))
   \<and> (\<not> (\<exists>r\<in>set (toArray (registry_entries opts)). truthy (reg_user r) \<and> truthy (reg_password r))
        \<and> truthy (config opts)
        \<longrightarrow> dockerConfigPath w opts ge =
              Some (path_join w (homedir w) (''.docker-'' @ goalSetId ge)))
   \<and> (\<not> (\<exists>r\<in>set (toArray (registry_entries opts)). truthy (reg_user r) \<and> truthy (reg_password r))
        \<and> \<not> truthy (config opts)
        \<longrightarrow> dockerConfigPath w opts ge = None)"
    by (auto simp: dockerConfigPath_def list_ex_iff)
  have names:
    "goalSetId ge \<noteq> goalSetId ge' \<longrightarrow> ''.docker-'' @ goalSetId ge \<noteq> ''.docker-'' @ goalSetId ge'"
    by simp
  show ?thesis
    using runWithDocker_events [of w tr gi opts] paths names by blast
qed

text \<open>
  Claim C8 as stated fails: two run goals of different goal sets, in an environment whose
  graph knows a registry with its credential, both spawn \<open>docker run\<close> with the same
  \<open>DOCKER_CONFIG\<close>, the shared \<open>.docker\<close> of the home directory.
\<close>

theorem docker_config_shared_counterexample:
  "goalSetId (goalEvent demo_run_invocation)
     \<noteq> goalSetId (goalEvent (demo_run_invocation\<lparr>goalEvent := demo_goal\<lparr>goalSetId := ''gs2''\<rparr>\<rparr>))
   \<and> filter is_Spawn (fst (snd (doDockerRun registry_world demo_run_options demo_run_invocation))) =
       [Spawn ''docker'' [''help''] [],
        Spawn ''docker'' [''run'', ''hello-world''] [(''DOCKER_CONFIG'', Some ''/home/sdm/.docker'')]]
   \<and> filter is_Spawn (fst (snd (doDockerRun registry_world demo_run_options
         (demo_run_invocation\<lparr>goalEvent := demo_goal\<lparr>goalSetId := ''gs2''\<rparr>\<rparr>)))) =
       [Spawn ''docker'' [''help''] [],
        Spawn ''docker'' [''run'', ''hello-world''] [(''DOCKER_CONFIG'', Some ''/home/sdm/.docker'')]]"
  by (simp add: doDockerRun_def builderProbe_def registryDiscovery_def builderRun_def
        checkIsBuilderAvailable_def spawnLog_def readRegistries_def runWithDocker_def
        postLinkImageWebhook_def dockerConfigPath_def first_elem_def
        registry_world_def quiet_world_def demo_run_options_def demo_run_invocation_def
        demo_goal_def toArray_def truthy_def Success_def Let_def)

text \<open>
  The amended claim on run options with a credentialed registry, with a \<open>config\<close> only,
  and with neither.
\<close>

theorem docker_config_scoping_witness:
  "dockerConfigPath quiet_world
     (demo_run_options\<lparr>registry_entries :=
        Some [\<lparr>reg_registry = ''r.example.io'', reg_user = Some ''bob'',
                reg_password = Some ''pw'', reg_label = ''main'', reg_display = False\<rparr>]\<rparr>)
     demo_goal = Some ''/home/sdm/.docker''
   \<and> dockerConfigPath quiet_world (demo_run_options\<lparr>config := Some ''{}''\<rparr>) demo_goal =
       Some ''/home/sdm/.docker-gs1''
   \<and> dockerConfigPath quiet_world demo_run_options demo_goal = None
   \<and> ''.docker-'' @ goalSetId demo_goal \<noteq> ''.docker-'' @ goalSetId (demo_goal\<lparr>goalSetId := ''gs2''\<rparr>)"
  using docker_config_scoping
          [of quiet_world "[]" demo_run_invocation
              "demo_run_options\<lparr>registry_entries :=
                 Some [\<lparr>reg_registry = ''r.example.io'', reg_user = Some ''bob'',
                         reg_password = Some ''pw'', reg_label = ''main'', reg_display = False\<rparr>]\<rparr>"
              demo_goal "demo_goal\<lparr>goalSetId := ''gs2''\<rparr>"]
        docker_config_scoping
          [of quiet_world "[]" demo_run_invocation "demo_run_options\<lparr>config := Some ''{}''\<rparr>"
              demo_goal "demo_goal\<lparr>goalSetId := ''gs2''\<rparr>"]
        docker_config_scoping
          [of quiet_world "[]" demo_run_invocation demo_run_options
              demo_goal "demo_goal\<lparr>goalSetId := ''gs2''\<rparr>"]
  by (simp add: quiet_world_def demo_run_options_def demo_goal_def toArray_def truthy_def)

section \<open>The kaniko builder\<close>




section \<open>Short-circuit on the first failing stage\<close>

text \<open>
  Claim C1. In \<open>executeDockerBuild\<close>, once the image name and the Dockerfile path are
  computed: if login returns a result with nonzero code, that result is the goal's result
  and the events are those of login alone (no process but \<open>login\<close>, no notification); if
  build does, its result is the goal's result, no process beyond \<open>login\<close> and \<open>build\<close>
  was spawned and no notification posted; if push does, its result is the goal's result and
  no notification is posted. In \<open>doDockerRun\<close>, if \<open>docker run\<close> returns a result with
  nonzero code, that result is the goal's result, the events end with that process and no
  notification is posted.
\<close>

theorem first_failure_is_final:
  "(creator p (gi_sdmGoal g) options (gi_context g) = Inr imageName
      \<and> (case dockerfileFinder options of Some f \<Rightarrow> f p | None \<Rightarrow> Inr ''Dockerfile'')
          = Inr dockerfilePath
      \<and> dockerLogin w [] options = (tr1, Inr r1) \<and> code r1 \<noteq> 0
    \<longrightarrow> executeDockerBuild w creator options g p = (options, tr1, Inr r1)
        \<and> set (subcommands tr1) \<subseteq> {''login''} \<and> postLinks tr1 = [])
   \<and> (creator p (gi_sdmGoal g) options (gi_context g) = Inr imageName
      \<and> (case dockerfileFinder options of Some f \<Rightarrow> f p | None \<Rightarrow> Inr ''Dockerfile'')
          = Inr dockerfilePath
      \<and> dockerLogin w [] options = (tr1, Inr r1) \<and> code r1 = 0
      \<and> spawnAndWatch w tr1 ''docker''
            [''build'', ''.'', ''-f'', dockerfilePath, ''-t'', image_of imageName] = (tr2, Inr r2)
      \<and> code r2 \<noteq> 0
    \<longrightarrow> executeDockerBuild w creator options g p = (options, tr2, Inr r2)
        \<and> set (subcommands tr2) \<subseteq> {''login'', ''build''} \<and> postLinks tr2 = [])
   \<and> (creator p (gi_sdmGoal g) options (gi_context g) = Inr imageName
      \<and> (case dockerfileFinder options of Some f \<Rightarrow> f p | None \<Rightarrow> Inr ''Dockerfile'')
          = Inr dockerfilePath
      \<and> dockerLogin w [] options = (tr1, Inr r1) \<and> code r1 = 0
      \<and> spawnAndWatch w tr1 ''docker''
            [''build'', ''.'', ''-f'', dockerfilePath, ''-t'', image_of imageName] = (tr2, Inr r2)
      \<and> code r2 = 0
      \<and> dockerPush w tr2 (image_of imageName) p options = (options', tr3, Inr r3)
      \<and> code r3 \<noteq> 0
    \<longrightarrow> executeDockerBuild w creator options g p = (options', tr3, Inr r3)
        \<and> postLinks tr3 = [])
   \<and> (builderProbe w (mergeOptions w optsPlus) = (tr4, Inr ())
      \<and> registryDiscovery w tr4 gi (mergeOptions w optsPlus) = (optsToUse2, tr5, Inr ())
      \<and> builder optsToUse2 = Some ''docker''
      \<and> runWithDocker w tr5 gi optsToUse2 = (tr6, Inr r6) \<and> code r6 \<noteq> 0
    \<longrightarrow> doDockerRun w optsPlus gi = (optsToUse2, tr6, Inr r6)
        \<and> (\<exists>env. tr6 = tr5 @ [Spawn ''docker''
               ([''run''] @ builderArgs optsToUse2 @ [builderPath optsToUse2] @ programArgs optsToUse2)
               env])
        \<and> postLinks tr6 = [])"
proof (intro conjI impI; elim conjE)
  assume a: "creator p (gi_sdmGoal g) options (gi_context g) = Inr imageName"
    "(case dockerfileFinder options of Some f \<Rightarrow> f p | None \<Rightarrow> Inr ''Dockerfile'')
          = Inr dockerfilePath"
    "dockerLogin w [] options = (tr1, Inr r1)" "code r1 \<noteq> 0"
  show "executeDockerBuild w creator options g p = (options, tr1, Inr r1)"
    using a by (simp add: executeDockerBuild_def)
  show "set (subcommands tr1) \<subseteq> {''login''}"
    using dockerLogin_trace [OF a(3)] by auto
  show "postLinks tr1 = []"
    using dockerLogin_trace [OF a(3)] by auto
next
  assume a: "creator p (gi_sdmGoal g) options (gi_context g) = Inr imageName"
    "(case dockerfileFinder options of Some f \<Rightarrow> f p | None \<Rightarrow> Inr ''Dockerfile'')
          = Inr dockerfilePath"
    "dockerLogin w [] options = (tr1, Inr r1)" "code r1 = 0"
    "spawnAndWatch w tr1 ''docker''
            [''build'', ''.'', ''-f'', dockerfilePath, ''-t'', image_of imageName] = (tr2, Inr r2)"
    "code r2 \<noteq> 0"
  have tr2: "tr2 = tr1 @ [Spawn ''docker''
            [''build'', ''.'', ''-f'', dockerfilePath, ''-t'', image_of imageName] []]"
    using a(5) by (auto simp: spawnAndWatch_def)
  show "executeDockerBuild w creator options g p = (options, tr2, Inr r2)"
    using a by (simp add: executeDockerBuild_def)
  show "set (subcommands tr2) \<subseteq> {''login'', ''build''}"
    using dockerLogin_trace [OF a(3)] tr2
    by (auto simp: subcommands_append) (auto simp: subcommands_def spawned_def)
  show "postLinks tr2 = []"
    using dockerLogin_trace [OF a(3)] tr2
    by (auto simp: postLinks_append) (simp add: postLinks_def)
next
  assume a: "creator p (gi_sdmGoal g) options (gi_context g) = Inr imageName"
    "(case dockerfileFinder options of Some f \<Rightarrow> f p | None \<Rightarrow> Inr ''Dockerfile'')
          = Inr dockerfilePath"
    "dockerLogin w [] options = (tr1, Inr r1)" "code r1 = 0"
    "spawnAndWatch w tr1 ''docker''
            [''build'', ''.'', ''-f'', dockerfilePath, ''-t'', image_of imageName] = (tr2, Inr r2)"
    "code r2 = 0"
    "dockerPush w tr2 (image_of imageName) p options = (options', tr3, Inr r3)"
    "code r3 \<noteq> 0"
  have tr2: "tr2 = tr1 @ [Spawn ''docker''
            [''build'', ''.'', ''-f'', dockerfilePath, ''-t'', image_of imageName] []]"
    using a(5) by (auto simp: spawnAndWatch_def)
  show "executeDockerBuild w creator options g p = (options', tr3, Inr r3)"
    using a by (simp add: executeDockerBuild_def)
  show "postLinks tr3 = []"
    using dockerLogin_trace [OF a(3)] tr2 dockerPush_trace [OF a(7)]
    by (auto simp: postLinks_append) (simp add: postLinks_def)
next
  assume a: "builderProbe w (mergeOptions w optsPlus) = (tr4, Inr ())"
    "registryDiscovery w tr4 gi (mergeOptions w optsPlus) = (optsToUse2, tr5, Inr ())"
    "builder optsToUse2 = Some ''docker''"
    "runWithDocker w tr5 gi optsToUse2 = (tr6, Inr r6)" "code r6 \<noteq> 0"
  show "doDockerRun w optsPlus gi = (optsToUse2, tr6, Inr r6)"
    using a by (simp add: doDockerRun_def builderRun_def Let_def)
  show "\<exists>env. tr6 = tr5 @ [Spawn ''docker''
               ([''run''] @ builderArgs optsToUse2 @ [builderPath optsToUse2] @ programArgs optsToUse2)
               env]"
    using runWithDocker_trace [OF a(4)] by blast
  have "postLinks tr4 = []"
    using builderProbe_trace [OF a(1)] by (auto simp: postLinks_def)
  moreover have "postLinks tr5 = postLinks tr4"
    using registryDiscovery_trace [OF a(2)] graph_only_no_links by (auto simp: postLinks_append)
  moreover have "postLinks tr6 = postLinks tr5"
    using runWithDocker_trace [OF a(4)] by (simp add: postLinks_def)
  ultimately show "postLinks tr6 = []" by simp
qed

text \<open>
  The theorem on four runs: login, build and push exiting with 125 in the build goal, and
  \<open>docker run\<close> exiting with 125 in the run goal.
\<close>

theorem first_failure_is_final_witness:
  "executeDockerBuild (failing_world ''login'') demo_creator demo_options demo_invocation
       demo_project =
     (demo_options,
      [LogWrite login_notice,
       Spawn ''docker'' [''login'', ''--username'', ''bob'', ''--password'', ''pw''] []],
      Inr failed)
   \<and> executeDockerBuild (failing_world ''build'') demo_creator demo_options demo_invocation
       demo_project =
     (demo_options,
      [LogWrite login_notice,
       Spawn ''docker'' [''login'', ''--username'', ''bob'', ''--password'', ''pw''] [],
       Spawn ''docker'' [''build'', ''.'', ''-f'', ''Dockerfile'', ''-t'', ''demo:1''] []],
      Inr failed)
   \<and> executeDockerBuild (failing_world ''push'') demo_creator demo_options demo_invocation
       demo_project =
     (demo_options\<lparr>push := Some True\<rparr>,
      [LogWrite login_notice,
       Spawn ''docker'' [''login'', ''--username'', ''bob'', ''--password'', ''pw''] [],
       Spawn ''docker'' [''build'', ''.'', ''-f'', ''Dockerfile'', ''-t'', ''demo:1''] [],
       Spawn ''docker'' [''push'', ''demo:1''] []],
      Inr failed)
   \<and> doDockerRun (failing_world ''run'') demo_run_options demo_run_invocation =
     (demo_run_options\<lparr>registry_entries := Some []\<rparr>,
      [Spawn ''docker'' [''help''] [],
       GraphQuery ''DockerRegistryProvider'' None,
       Spawn ''docker'' [''run'', ''hello-world''] [(''DOCKER_CONFIG'', None)]],
      Inr failed)"
proof -
  let ?login = "[LogWrite login_notice,
       Spawn ''docker'' [''login'', ''--username'', ''bob'', ''--password'', ''pw''] []]"
  let ?build = "Spawn ''docker'' [''build'', ''.'', ''-f'', ''Dockerfile'', ''-t'', ''demo:1''] []"
  let ?name = "\<lparr>img_registry = None, img_name = ''demo'', img_version = ''1''\<rparr>"
  have image: "image_of ?name = ''demo:1''"
    by (simp add: image_of_def truthy_def)
  have creator: "demo_creator demo_project (gi_sdmGoal demo_invocation) demo_options
                   (gi_context demo_invocation) = Inr ?name"
    by (simp add: demo_creator_def)
  have finder: "(case dockerfileFinder demo_options of Some f \<Rightarrow> f demo_project
                 | None \<Rightarrow> Inr ''Dockerfile'') = Inr ''Dockerfile''"
    by (simp add: demo_options_def)
  have login_bad: "dockerLogin (failing_world ''login'') [] demo_options = (?login, Inr failed)"
    by (simp add: dockerLogin_def spawnAndWatch_def failing_world_def quiet_world_def
          demo_options_def test_non_alnum_None failed_def Let_def)
  have login_ok: "\<And>sub. sub \<noteq> ''login'' \<Longrightarrow>
                    dockerLogin (failing_world sub) [] demo_options = (?login, Inr Success)"
    by (simp add: dockerLogin_def spawnAndWatch_def failing_world_def quiet_world_def
          demo_options_def test_non_alnum_None Let_def)
  have build_bad: "spawnAndWatch (failing_world ''build'') ?login ''docker''
                     [''build'', ''.'', ''-f'', ''Dockerfile'', ''-t'', image_of ?name] =
                   (?login @ [?build], Inr failed)"
    by (simp add: spawnAndWatch_def failing_world_def quiet_world_def failed_def image)
  have build_ok: "spawnAndWatch (failing_world ''push'') ?login ''docker''
                     [''build'', ''.'', ''-f'', ''Dockerfile'', ''-t'', image_of ?name] =
                   (?login @ [?build], Inr Success)"
    by (simp add: spawnAndWatch_def failing_world_def quiet_world_def image)
  have push_bad: "dockerPush (failing_world ''push'') (?login @ [?build]) (image_of ?name)
                    demo_project demo_options =
                  (demo_options\<lparr>push := Some True\<rparr>,
                   ?login @ [?build, Spawn ''docker'' [''push'', ''demo:1''] []], Inr failed)"
    by (simp add: dockerPush_def spawnAndWatch_def failing_world_def quiet_world_def
          demo_options_def or_true_True truthy_def failed_def image Let_def)
  have probe: "builderProbe (failing_world ''run'') (mergeOptions (failing_world ''run'') demo_run_options) =
                 ([Spawn ''docker'' [''help''] []], Inr ())"
    by (simp add: builderProbe_def checkIsBuilderAvailable_def spawnLog_def failing_world_def
          quiet_world_def demo_run_options_def)
  have disc: "registryDiscovery (failing_world ''run'') [Spawn ''docker'' [''help''] []]
                demo_run_invocation (mergeOptions (failing_world ''run'') demo_run_options) =
              (demo_run_options\<lparr>registry_entries := Some []\<rparr>,
               [Spawn ''docker'' [''help''] [], GraphQuery ''DockerRegistryProvider'' None], Inr ())"
    by (simp add: registryDiscovery_def readRegistries_def failing_world_def quiet_world_def
          demo_run_options_def toArray_def truthy_def Let_def)
  have run_bad: "runWithDocker (failing_world ''run'')
                   [Spawn ''docker'' [''help''] [], GraphQuery ''DockerRegistryProvider'' None]
                   demo_run_invocation (demo_run_options\<lparr>registry_entries := Some []\<rparr>) =
                 ([Spawn ''docker'' [''help''] [], GraphQuery ''DockerRegistryProvider'' None,
                   Spawn ''docker'' [''run'', ''hello-world''] [(''DOCKER_CONFIG'', None)]],
                  Inr failed)"
    by (simp add: runWithDocker_def spawnLog_def dockerConfigPath_def failing_world_def
          quiet_world_def demo_run_options_def toArray_def truthy_def failed_def)
  have c0: "code Success = 0" and c1: "code failed \<noteq> 0"
    by (simp_all add: Success_def failed_def)
  have b: "builder (demo_run_options\<lparr>registry_entries := Some []\<rparr>) = Some ''docker''"
    by (simp add: demo_run_options_def)
  note claim = first_failure_is_final
  have 1: "executeDockerBuild (failing_world ''login'') demo_creator demo_options demo_invocation
             demo_project = (demo_options, ?login, Inr failed)"
    using claim [where creator = demo_creator and p = demo_project and g = demo_invocation and options = demo_options,
                 THEN conjunct1, rule_format, OF conjI [OF creator conjI [OF finder
                 conjI [OF login_bad c1]]]]
    by simp
  have 2: "executeDockerBuild (failing_world ''build'') demo_creator demo_options demo_invocation
             demo_project = (demo_options, ?login @ [?build], Inr failed)"
    using claim [where creator = demo_creator and p = demo_project and g = demo_invocation and options = demo_options,
                 THEN conjunct2, THEN conjunct1, rule_format, OF conjI [OF creator conjI [OF finder
                 conjI [OF login_ok conjI [OF c0 conjI [OF build_bad c1]]]]]]
    by simp
  have 3: "executeDockerBuild (failing_world ''push'') demo_creator demo_options demo_invocation
             demo_project =
           (demo_options\<lparr>push := Some True\<rparr>,
            ?login @ [?build, Spawn ''docker'' [''push'', ''demo:1''] []], Inr failed)"
    using claim [where creator = demo_creator and p = demo_project and g = demo_invocation and options = demo_options,
                 THEN conjunct2, THEN conjunct2, THEN conjunct1, rule_format,
                 OF conjI [OF creator conjI [OF finder conjI [OF login_ok conjI [OF c0
                   conjI [OF build_ok conjI [OF c0 conjI [OF push_bad c1]]]]]]]]
    by simp
  have 4: "doDockerRun (failing_world ''run'') demo_run_options demo_run_invocation =
           (demo_run_options\<lparr>registry_entries := Some []\<rparr>,
            [Spawn ''docker'' [''help''] [], GraphQuery ''DockerRegistryProvider'' None,
             Spawn ''docker'' [''run'', ''hello-world''] [(''DOCKER_CONFIG'', None)]],
            Inr failed)"
    using claim [THEN conjunct2, THEN conjunct2, THEN conjunct2, rule_format,
                 OF conjI [OF probe conjI [OF disc conjI [OF b conjI [OF run_bad c1]]]]]
    by simp
  show ?thesis using 1 2 3 4 by simp
qed

section \<open>A failed notification fails the goal\<close>

text \<open>
  Claim C5. When every stage has returned code 0 and the image-link webhook answers false,
  the goal's result is code 1 with the message \<open>Image link failed\<close> in place of the
  successful result, in the build goal and in the run goal alike. The notification is the
  last event: nothing is run afterwards to undo the push.
\<close>

theorem image_link_failure_fails_goal:
  "(creator p (gi_sdmGoal g) options (gi_context g) = Inr imageName
      \<and> (case dockerfileFinder options of Some f \<Rightarrow> f p | None \<Rightarrow> Inr ''Dockerfile'')
          = Inr dockerfilePath
      \<and> dockerLogin w [] options = (tr1, Inr r1) \<and> code r1 = 0
      \<and> spawnAndWatch w tr1 ''docker''
            [''build'', ''.'', ''-f'', dockerfilePath, ''-t'', image_of imageName] = (tr2, Inr r2)
      \<and> code r2 = 0
      \<and> dockerPush w tr2 (image_of imageName) p options = (options', tr3, Inr r3)
      \<and> code r3 = 0
      \<and> postLinkImageWebhook_reply w tr3 (repo_owner (gi_sdmGoal g)) (repo_name (gi_sdmGoal g))
            (sha (gi_sdmGoal g)) (Some (image_of imageName)) (workspaceId (gi_context g))
          = Inr False
    \<longrightarrow> executeDockerBuild w creator options g p =
          (options',
           tr3 @ [PostLink (repo_owner (gi_sdmGoal g)) (repo_name (gi_sdmGoal g))
                    (sha (gi_sdmGoal g)) (Some (image_of imageName)) (workspaceId (gi_context g))],
           Inr \<lparr>code = 1, message = Some ''Image link failed''\<rparr>))
   \<and> (builderProbe w (mergeOptions w optsPlus) = (tr4, Inr ())
      \<and> registryDiscovery w tr4 gi (mergeOptions w optsPlus) = (optsToUse2, tr5, Inr ())
      \<and> builderRun w tr5 gi optsToUse2 \<lparr>code = 0, message = None\<rparr> [] [] = (tr6, Inr r6)
      \<and> code r6 = 0
      \<and> postLinkImageWebhook_reply w tr6 (repo_owner (goalEvent gi)) (repo_name (goalEvent gi))
            (sha (goalEvent gi)) None (workspaceId (pgi_context gi)) = Inr False
    \<longrightarrow> doDockerRun w optsPlus gi =
          (optsToUse2,
           tr6 @ [PostLink (repo_owner (goalEvent gi)) (repo_name (goalEvent gi))
                    (sha (goalEvent gi)) None (workspaceId (pgi_context gi))],
           Inr \<lparr>code = 1, message = Some ''Image link failed''\<rparr>))"
  by (simp add: executeDockerBuild_def doDockerRun_def postLinkImageWebhook_def
        image_link_failed_def first_elem_def Let_def)

text \<open>
  The theorem on a build goal and a run goal whose processes all exit with 0 while the
  webhook answers false.
\<close>

theorem image_link_failure_fails_goal_witness:
  "executeDockerBuild unlinked_world demo_creator demo_options demo_invocation demo_project =
     (demo_options\<lparr>push := Some True\<rparr>,
      [LogWrite login_notice,
       Spawn ''docker'' [''login'', ''--username'', ''bob'', ''--password'', ''pw''] [],
       Spawn ''docker'' [''build'', ''.'', ''-f'', ''Dockerfile'', ''-t'', ''demo:1''] [],
       Spawn ''docker'' [''push'', ''demo:1''] [],
       PostLink ''acme'' ''demo'' ''abc123'' (Some ''demo:1'') ''W1''],
      Inr \<lparr>code = 1, message = Some ''Image link failed''\<rparr>)
   \<and> doDockerRun unlinked_world demo_run_options demo_run_invocation =
     (demo_run_options\<lparr>registry_entries := Some []\<rparr>,
      [Spawn ''docker'' [''help''] [],
       GraphQuery ''DockerRegistryProvider'' None,
       Spawn ''docker'' [''run'', ''hello-world''] [(''DOCKER_CONFIG'', None)],
       PostLink ''acme'' ''demo'' ''abc123'' None ''W1''],
      Inr \<lparr>code = 1, message = Some ''Image link failed''\<rparr>)"
proof -
  let ?login = "[LogWrite login_notice,
       Spawn ''docker'' [''login'', ''--username'', ''bob'', ''--password'', ''pw''] []]"
  let ?build = "Spawn ''docker'' [''build'', ''.'', ''-f'', ''Dockerfile'', ''-t'', ''demo:1''] []"
  let ?push = "Spawn ''docker'' [''push'', ''demo:1''] []"
  let ?name = "\<lparr>img_registry = None, img_name = ''demo'', img_version = ''1''\<rparr>"
  let ?run = "[Spawn ''docker'' [''help''] [], GraphQuery ''DockerRegistryProvider'' None,
               Spawn ''docker'' [''run'', ''hello-world''] [(''DOCKER_CONFIG'', None)]]"
  have image: "image_of ?name = ''demo:1''"
    by (simp add: image_of_def truthy_def)
  have creator: "demo_creator demo_project (gi_sdmGoal demo_invocation) demo_options
                   (gi_context demo_invocation) = Inr ?name"
    by (simp add: demo_creator_def)
  have finder: "(case dockerfileFinder demo_options of Some f \<Rightarrow> f demo_project
                 | None \<Rightarrow> Inr ''Dockerfile'') = Inr ''Dockerfile''"
    by (simp add: demo_options_def)
  have login: "dockerLogin unlinked_world [] demo_options = (?login, Inr Success)"
    by (simp add: dockerLogin_def spawnAndWatch_def unlinked_world_def quiet_world_def
          demo_options_def test_non_alnum_None Let_def)
  have build: "spawnAndWatch unlinked_world ?login ''docker''
                 [''build'', ''.'', ''-f'', ''Dockerfile'', ''-t'', image_of ?name] =
               (?login @ [?build], Inr Success)"
    by (simp add: spawnAndWatch_def unlinked_world_def quiet_world_def image)
  have push: "dockerPush unlinked_world (?login @ [?build]) (image_of ?name) demo_project
                demo_options =
              (demo_options\<lparr>push := Some True\<rparr>, ?login @ [?build, ?push], Inr Success)"
    by (simp add: dockerPush_def spawnAndWatch_def unlinked_world_def quiet_world_def
          demo_options_def or_true_True truthy_def image Let_def)
  have link: "postLinkImageWebhook_reply unlinked_world (?login @ [?build, ?push])
                (repo_owner (gi_sdmGoal demo_invocation)) (repo_name (gi_sdmGoal demo_invocation))
                (sha (gi_sdmGoal demo_invocation)) (Some (image_of ?name))
                (workspaceId (gi_context demo_invocation)) = Inr False"
    by (simp add: unlinked_world_def)
  have probe: "builderProbe unlinked_world (mergeOptions unlinked_world demo_run_options) =
                 ([Spawn ''docker'' [''help''] []], Inr ())"
    by (simp add: builderProbe_def checkIsBuilderAvailable_def spawnLog_def unlinked_world_def
          quiet_world_def demo_run_options_def)
  have disc: "registryDiscovery unlinked_world [Spawn ''docker'' [''help''] []]
                demo_run_invocation (mergeOptions unlinked_world demo_run_options) =
              (demo_run_options\<lparr>registry_entries := Some []\<rparr>,
               [Spawn ''docker'' [''help''] [], GraphQuery ''DockerRegistryProvider'' None], Inr ())"
    by (simp add: registryDiscovery_def readRegistries_def unlinked_world_def quiet_world_def
          demo_run_options_def toArray_def truthy_def Let_def)
  have run: "builderRun unlinked_world
               [Spawn ''docker'' [''help''] [], GraphQuery ''DockerRegistryProvider'' None]
               demo_run_invocation (demo_run_options\<lparr>registry_entries := Some []\<rparr>)
               \<lparr>code = 0, message = None\<rparr> [] [] = (?run, Inr Success)"
    by (simp add: builderRun_def runWithDocker_def spawnLog_def dockerConfigPath_def
          unlinked_world_def quiet_world_def demo_run_options_def toArray_def truthy_def
          Success_def)
  have link2: "postLinkImageWebhook_reply unlinked_world ?run
                (repo_owner (goalEvent demo_run_invocation)) (repo_name (goalEvent demo_run_invocation))
                (sha (goalEvent demo_run_invocation)) None
                (workspaceId (pgi_context demo_run_invocation)) = Inr False"
    by (simp add: unlinked_world_def)
  have c0: "code Success = 0"
    by (simp add: Success_def)
  note claim = image_link_failure_fails_goal
  have 1: "executeDockerBuild unlinked_world demo_creator demo_options demo_invocation
             demo_project =
           (demo_options\<lparr>push := Some True\<rparr>,
            (?login @ [?build, ?push]) @
              [PostLink (repo_owner (gi_sdmGoal demo_invocation)) (repo_name (gi_sdmGoal demo_invocation))
                (sha (gi_sdmGoal demo_invocation)) (Some (image_of ?name))
                (workspaceId (gi_context demo_invocation))],
            Inr \<lparr>code = 1, message = Some ''Image link failed''\<rparr>)"
    using claim [where creator = demo_creator and p = demo_project and g = demo_invocation and options = demo_options,
                 THEN conjunct1, rule_format, OF conjI [OF creator conjI [OF finder
                 conjI [OF login conjI [OF c0 conjI [OF build conjI [OF c0
                   conjI [OF push conjI [OF c0 link]]]]]]]]]
    by simp
  have 2: "doDockerRun unlinked_world demo_run_options demo_run_invocation =
           (demo_run_options\<lparr>registry_entries := Some []\<rparr>,
            ?run @ [PostLink (repo_owner (goalEvent demo_run_invocation))
                      (repo_name (goalEvent demo_run_invocation))
                      (sha (goalEvent demo_run_invocation)) None
                      (workspaceId (pgi_context demo_run_invocation))],
            Inr \<lparr>code = 1, message = Some ''Image link failed''\<rparr>)"
    using claim [THEN conjunct2, rule_format, OF conjI [OF probe conjI [OF disc
                 conjI [OF run conjI [OF c0 link2]]]]]
    by simp
  show ?thesis
    using 1 2 by (simp add: image demo_invocation_def demo_run_invocation_def demo_goal_def)
qed

end
